theory Spec2Isabelle
  imports Main "HOL-Library.Word" "HOL-Library.Monad_Syntax"
begin

unbundle bit_operations_syntax

section \<open>Machine types of the driver\<close>

text \<open>
  The driver is \<^verbatim>\<open>QSPIFBlockDevice.cpp\<close>. Its integers are modelled with their
  widths: \<^verbatim>\<open>uint8_t\<close>, \<^verbatim>\<open>uint32_t\<close>/\<^verbatim>\<open>unsigned int\<close> and
  \<^verbatim>\<open>bd_addr_t\<close>/\<^verbatim>\<open>bd_size_t\<close> (64 bits) are words whose arithmetic wraps. A C
  \<^verbatim>\<open>int\<close> that takes part in wrapping or truncating arithmetic is a 32-bit word read
  through \<open>sint\<close> (signed overflow is undefined in C++; the model wraps, as the supported
  targets do). Small counters and indices (\<^verbatim>\<open>i_ind\<close>, \<^verbatim>\<open>region\<close>, \<^verbatim>\<open>type\<close>,
  \<^verbatim>\<open>_regions_count\<close>), whose arithmetic stays far from the bounds, are \<open>int\<close>.
  Names are the source's, without the leading underscore.
\<close>

type_synonym uint8_t = "8 word"
type_synonym uint32_t = "32 word"
type_synonym int32_t = "32 word"
type_synonym bd_addr_t = "64 word"
type_synonym bd_size_t = "64 word"
type_synonym qspi_inst_t = int

text \<open>
  A C array is a function from the index to the element. An index outside the declared
  bounds (the driver reads \<^verbatim>\<open>_region_erase_types_bitfield[-1]\<close> when the region lookup
  fails) yields whatever the function holds there: the read returns some value and does
  not stop the program. \<open>arr_of d xs\<close> is the array holding \<open>xs\<close>, and \<open>d\<close> elsewhere.
\<close>

definition arr_of :: "'a \<Rightarrow> 'a list \<Rightarrow> int \<Rightarrow> 'a" where
  "arr_of d xs i = (if 0 \<le> i \<and> i < int (length xs) then xs ! nat i else d)"

section \<open>The transport\<close>

datatype qspi_status_t = QSPI_STATUS_OK | QSPI_STATUS_ERROR | QSPI_STATUS_INVALID_PARAMETER

datatype qspi_bus_width_t = QSPI_CFG_BUS_SINGLE | QSPI_CFG_BUS_DUAL | QSPI_CFG_BUS_QUAD

datatype qspi_address_size_t =
  QSPI_CFG_ADDR_SIZE_8 | QSPI_CFG_ADDR_SIZE_16 | QSPI_CFG_ADDR_SIZE_24 | QSPI_CFG_ADDR_SIZE_32

datatype qspi_alt_size_t =
  QSPI_CFG_ALT_SIZE_8 | QSPI_CFG_ALT_SIZE_16 | QSPI_CFG_ALT_SIZE_24 | QSPI_CFG_ALT_SIZE_32

text \<open>
  The transport (\<^verbatim>\<open>_qspi\<close>) and the thread sleep are outside this source file. They are
  taken as a parameter: every call is recorded as an event, in order, and the answer of
  the transport is an arbitrary function of the events so far and of the call. The
  address parameter of the transport is 32 bits wide; \<open>-1\<close> there is the word
  \<open>0xFFFFFFFF\<close>.
  \<^item> \<open>Command_transfer inst addr tx rx_length\<close> is
    \<^verbatim>\<open>_qspi.command_transfer(inst, addr, tx, tx_length, rx, rx_length)\<close>;
  \<^item> \<open>Write inst addr data length\<close> is \<^verbatim>\<open>_qspi.write(inst, -1, addr, buffer, &length)\<close>;
  \<^item> \<open>Read inst addr length\<close> is \<^verbatim>\<open>_qspi.read(inst, -1, addr, buffer, &length)\<close>;
  \<^item> \<open>Sleep_for ms\<close> is \<^verbatim>\<open>rtos::ThisThread::sleep_for(ms)\<close>.
  A reply is the status, the bytes stored in the receive buffer and the byte count
  written back through the length pointer.
\<close>

datatype qspi_event =
    Command_transfer qspi_inst_t uint32_t "uint8_t list" nat
  | Write qspi_inst_t uint32_t "uint8_t list" uint32_t
  | Read qspi_inst_t uint32_t nat
  | Configure_format qspi_bus_width_t qspi_bus_width_t qspi_address_size_t qspi_bus_width_t
      qspi_alt_size_t qspi_bus_width_t int
  | Set_frequency int
  | Sleep_for nat

type_synonym qspi_reply = "qspi_status_t \<times> uint8_t list \<times> uint32_t"

record QSPI =
  device :: "qspi_event list \<Rightarrow> qspi_event \<Rightarrow> qspi_reply"
  trace :: "qspi_event list"

definition transact :: "qspi_event \<Rightarrow> QSPI \<Rightarrow> qspi_reply \<times> QSPI" where
  "transact ev q = (device q (trace q) ev, q\<lparr>trace := trace q @ [ev]\<rparr>)"

section \<open>The driver object\<close>

datatype qspif_bd_error =
    QSPIF_BD_ERROR_OK
  | QSPIF_BD_ERROR_DEVICE_ERROR
  | QSPIF_BD_ERROR_PARSING_FAILED
  | QSPIF_BD_ERROR_READY_FAILED
  | QSPIF_BD_ERROR_WREN_FAILED
  | QSPIF_BD_ERROR_INVALID_ERASE_PARAMS
  | QSPIF_BD_ERROR_DEVICE_NOT_UNIQE
  | QSPIF_BD_ERROR_DEVICE_MAX_EXCEED

record QSPIFBlockDevice =
  qspi :: QSPI
  device_size_bytes :: bd_size_t
  page_size_bytes :: uint32_t
  regions_count :: int
  region_size_bytes :: "int \<Rightarrow> int32_t"
  region_high_boundary :: "int \<Rightarrow> bd_size_t"
  region_erase_types_bitfield :: "int \<Rightarrow> uint8_t"
  min_common_erase_size :: uint32_t
  erase_type_inst_arr :: "int \<Rightarrow> qspi_inst_t"
  erase_type_size_arr :: "int \<Rightarrow> uint32_t"
  read_instruction :: qspi_inst_t
  prog_instruction :: qspi_inst_t
  erase_instruction :: qspi_inst_t
  erase4k_inst :: qspi_inst_t
  fourbyte_msb_reg_write_inst :: qspi_inst_t
  address_size :: qspi_address_size_t

definition QSPI_NO_INST :: qspi_inst_t where
  "QSPI_NO_INST = -1"

definition QSPI_NO_ADDRESS_COMMAND :: bd_addr_t where
  "QSPI_NO_ADDRESS_COMMAND = - 1"

definition QSPIF_STATUS_BIT_WIP :: uint8_t where
  "QSPIF_STATUS_BIT_WIP = 0x1"

definition QSPIF_STATUS_BIT_WEL :: uint8_t where
  "QSPIF_STATUS_BIT_WEL = 0x2"

definition IS_MEM_READY_MAX_RETRIES :: int where
  "IS_MEM_READY_MAX_RETRIES = 10000"

definition QSPIF_WREN :: qspi_inst_t where
  "QSPIF_WREN = 0x06"

definition QSPIF_INST_RSR1 :: qspi_inst_t where
  "QSPIF_INST_RSR1 = 0x05"

definition QSPIF_INST_RSFDP :: qspi_inst_t where
  "QSPIF_INST_RSFDP = 0x5A"

section \<open>Geometry: address to region\<close>

text \<open>
  \<^verbatim>\<open>_utils_find_addr_region\<close>: the loop runs \<^verbatim>\<open>i_ind\<close> from
  \<^verbatim>\<open>_regions_count - 2\<close> down to 0 and returns \<^verbatim>\<open>i_ind + 1\<close> at the first region
  whose high boundary is below the offset; after the loop it returns -1.
\<close>

function utils_find_addr_region_loop :: "QSPIFBlockDevice \<Rightarrow> bd_size_t \<Rightarrow> int \<Rightarrow> int" where
  "utils_find_addr_region_loop st offset i_ind =
     (if i_ind \<ge> 0 then
        (if offset > region_high_boundary st i_ind then i_ind + 1
         else utils_find_addr_region_loop st offset (i_ind - 1))
      else -1)"
  by pat_completeness auto
termination
  by (relation "measure (\<lambda>(st, offset, i_ind). nat (i_ind + 1))") auto

declare utils_find_addr_region_loop.simps [simp del]

definition utils_find_addr_region :: "QSPIFBlockDevice \<Rightarrow> bd_size_t \<Rightarrow> int" where
  "utils_find_addr_region st offset =
     (if offset > device_size_bytes st \<or> regions_count st = 0 then -1
      else if regions_count st = 1 then 0
      else utils_find_addr_region_loop st offset (regions_count st - 2))"

section \<open>Commands to the transport\<close>

text \<open>
  The first byte the transport stored in a one-byte receive buffer; the buffer keeps
  its previous value when the transport stored nothing.
\<close>

definition rx_byte :: "uint8_t \<Rightarrow> uint8_t list \<Rightarrow> uint8_t" where
  "rx_byte old rx = (case rx of [] \<Rightarrow> old | b # _ \<Rightarrow> b)"

definition sleep_for :: "nat \<Rightarrow> QSPIFBlockDevice \<Rightarrow> QSPIFBlockDevice" where
  "sleep_for ms st = st\<lparr>qspi := snd (transact (Sleep_for ms) (qspi st))\<rparr>"

text \<open>
  A call that does not come back with a value is \<open>None\<close>. There are two causes.
  A division by zero (\<^verbatim>\<open>addr % 0\<close>) is one. The other is in
  \<^verbatim>\<open>_qspi_update_4byte_ext_addr_reg\<close>: when an extended-address-register instruction
  is recorded, it calls \<^verbatim>\<open>_set_write_enable()\<close>, whose first action is
  \<^verbatim>\<open>_qspi_send_general_command(QSPIF_WREN, ...)\<close>, whose first action is
  \<^verbatim>\<open>_qspi_update_4byte_ext_addr_reg\<close> again, on the same object and before any
  transport call: the chain of calls never returns.
\<close>

definition qspi_update_4byte_ext_addr_reg ::
  "bd_addr_t \<Rightarrow> QSPIFBlockDevice \<Rightarrow> (qspi_status_t \<times> QSPIFBlockDevice) option" where
  "qspi_update_4byte_ext_addr_reg addr st =
     (if fourbyte_msb_reg_write_inst st \<noteq> QSPI_NO_INST then None
      else if address_size st \<noteq> QSPI_CFG_ADDR_SIZE_32 \<and> addr \<noteq> QSPI_NO_ADDRESS_COMMAND
              \<and> addr \<ge> push_bit 24 1
      then Some (QSPI_STATUS_ERROR, st)
      else Some (QSPI_STATUS_OK, st))"

definition qspi_send_general_command ::
  "qspi_inst_t \<Rightarrow> bd_addr_t \<Rightarrow> uint8_t list \<Rightarrow> nat \<Rightarrow> QSPIFBlockDevice
     \<Rightarrow> (qspi_status_t \<times> uint8_t list \<times> QSPIFBlockDevice) option" where
  "qspi_send_general_command instruction addr tx_buffer rx_length st =
     do {
       (status, st1) \<leftarrow> qspi_update_4byte_ext_addr_reg addr st;
       if status \<noteq> QSPI_STATUS_OK then Some (status, [], st1)
       else
         (case transact (Command_transfer instruction (ucast addr) tx_buffer rx_length) (qspi st1) of
            ((status, rx, n), q) \<Rightarrow> Some (status, rx, st1\<lparr>qspi := q\<rparr>))
     }"

text \<open>
  \<^verbatim>\<open>_qspi_send_program_command\<close>: the length pointer carries the chunk length in and
  the written length out; without a transport call the length is left as it was.
\<close>

definition qspi_send_program_command ::
  "qspi_inst_t \<Rightarrow> uint8_t list \<Rightarrow> bd_addr_t \<Rightarrow> uint32_t \<Rightarrow> QSPIFBlockDevice
     \<Rightarrow> (qspi_status_t \<times> uint32_t \<times> QSPIFBlockDevice) option" where
  "qspi_send_program_command prog_inst buffer addr size_io st =
     do {
       (status, st1) \<leftarrow> qspi_update_4byte_ext_addr_reg addr st;
       if status \<noteq> QSPI_STATUS_OK then Some (status, size_io, st1)
       else
         (case transact (Write prog_inst (ucast addr) (take (unat size_io) buffer) size_io) (qspi st1) of
            ((status, rx, written), q) \<Rightarrow> Some (status, written, st1\<lparr>qspi := q\<rparr>))
     }"

text \<open>\<^verbatim>\<open>_qspi_send_erase_command\<close>: the address sent is \<^verbatim>\<open>((int) addr) & 0x00FFF000\<close>.\<close>

definition qspi_send_erase_command ::
  "qspi_inst_t \<Rightarrow> bd_addr_t \<Rightarrow> bd_size_t \<Rightarrow> QSPIFBlockDevice
     \<Rightarrow> (qspi_status_t \<times> QSPIFBlockDevice) option" where
  "qspi_send_erase_command erase_inst addr sz st =
     do {
       (status, st1) \<leftarrow> qspi_update_4byte_ext_addr_reg addr st;
       if status \<noteq> QSPI_STATUS_OK then Some (status, st1)
       else
         (case transact (Command_transfer erase_inst ((ucast addr :: int32_t) AND 0x00FFF000) [] 0)
                 (qspi st1) of
            ((status, rx, n), q) \<Rightarrow> Some (status, st1\<lparr>qspi := q\<rparr>))
     }"

section \<open>Busy poll and write enable\<close>

text \<open>
  \<^verbatim>\<open>_is_mem_ready\<close>: a do-while loop; each round sleeps 1 ms, updates \<^verbatim>\<open>retries\<close>,
  sets the status byte to \<open>0xFF\<close>, reads status register 1 into it (a failed read is
  only logged) and goes round again while the write-in-progress bit is set and
  \<^verbatim>\<open>retries < IS_MEM_READY_MAX_RETRIES\<close>. The statement that updates the counter is
  \<^verbatim>\<open>retries-\<close> in the source, a decrement (there is no increment of the counter in
  the loop); \<^verbatim>\<open>retries\<close> starts at 0.
\<close>

lemma retries_decrement:
  fixes r :: int32_t
  assumes a: "sint (r - 1) < 10000"
  shows "sint (r - 1) < sint r" and "0 < sint r + 2147483648"
proof -
  have e: "sint (r - 1) = signed_take_bit 31 (sint r - 1)"
    by (simp add: sint_word_ariths)
  have lo: "- (2 ^ 31) \<le> sint r"
    using sint_ge [of r] by simp
  have hi: "sint r < 2 ^ 31"
    using sint_lt [of r] by simp
  have "\<not> sint r - 1 < - (2 ^ 31)"
  proof
    assume below: "sint r - 1 < - (2 ^ 31)"
    from signed_take_bit_int_greater_eq [OF below]
    have "sint r - 1 + 2 ^ Suc 31 \<le> sint (r - 1)"
      using e by simp
    with lo a show False by simp
  qed
  moreover from this have "signed_take_bit 31 (sint r - 1) = sint r - 1"
    using hi by (simp add: signed_take_bit_int_eq_self)
  ultimately show "sint (r - 1) < sint r" and "0 < sint r + 2147483648"
    using e by simp_all
qed

function is_mem_ready_loop ::
  "int32_t \<Rightarrow> QSPIFBlockDevice \<Rightarrow> (uint8_t \<times> QSPIFBlockDevice) option" where
  "is_mem_ready_loop retries st =
     do {
       (status, rx, st2) \<leftarrow>
          qspi_send_general_command QSPIF_INST_RSR1 QSPI_NO_ADDRESS_COMMAND [] 1 (sleep_for 1 st);
       if rx_byte 0xFF rx AND QSPIF_STATUS_BIT_WIP \<noteq> 0
            \<and> sint (retries - 1) < IS_MEM_READY_MAX_RETRIES
       then is_mem_ready_loop (retries - 1) st2
       else Some (rx_byte 0xFF rx, st2)
     }"
  by pat_completeness auto

termination
  by (relation "measure (\<lambda>(retries, st). nat (sint retries + 2 ^ 31))")
    (auto simp: IS_MEM_READY_MAX_RETRIES_def retries_decrement)

declare is_mem_ready_loop.simps [simp del]

definition is_mem_ready :: "QSPIFBlockDevice \<Rightarrow> (bool \<times> QSPIFBlockDevice) option" where
  "is_mem_ready st =
     do {
       (status_value, st1) \<leftarrow> is_mem_ready_loop 0 st;
       Some (status_value AND QSPIF_STATUS_BIT_WIP = 0, st1)
     }"

text \<open>\<^verbatim>\<open>_set_write_enable\<close>: 0 on success, -1 when any of its four steps fails.\<close>

definition set_write_enable :: "QSPIFBlockDevice \<Rightarrow> (int \<times> QSPIFBlockDevice) option" where
  "set_write_enable st =
     do {
       (s1, rx1, st1) \<leftarrow> qspi_send_general_command QSPIF_WREN QSPI_NO_ADDRESS_COMMAND [] 0 st;
       if s1 \<noteq> QSPI_STATUS_OK then Some (-1, st1)
       else do {
         (ready, st2) \<leftarrow> is_mem_ready st1;
         if \<not> ready then Some (-1, st2)
         else do {
           (s3, rx3, st3) \<leftarrow>
              qspi_send_general_command QSPIF_INST_RSR1 QSPI_NO_ADDRESS_COMMAND [] 1 st2;
           if s3 \<noteq> QSPI_STATUS_OK then Some (-1, st3)
           else if rx_byte 0 rx3 AND QSPIF_STATUS_BIT_WEL = 0 then Some (-1, st3)
           else Some (0, st3)
         }
       }
     }"

section \<open>Program\<close>

text \<open>
  The chunk of one round of \<^verbatim>\<open>program\<close>: \<^verbatim>\<open>offset = addr % _page_size_bytes\<close> (a
  \<^verbatim>\<open>uint32_t\<close>), \<^verbatim>\<open>chunk = (offset + size < _page_size_bytes) ? size :
  (_page_size_bytes - offset)\<close>; the comparison is on 64 bits, the chunk is a
  \<^verbatim>\<open>uint32_t\<close>.
\<close>

definition program_chunk :: "uint32_t \<Rightarrow> bd_addr_t \<Rightarrow> bd_size_t \<Rightarrow> uint32_t" where
  "program_chunk page addr sz =
     (let offset = (ucast (addr mod ucast page) :: uint32_t)
      in if (ucast offset :: bd_size_t) + sz < ucast page then ucast sz else page - offset)"

lemma unat_offset:
  fixes addr :: "64 word" and page :: "32 word"
  assumes "page \<noteq> 0"
  shows "unat (ucast (addr mod ucast page) :: 32 word) = unat addr mod unat page"
    and "unat (addr mod ucast page) = unat addr mod unat page"
proof -
  have p: "unat page < 2 ^ 32" using unsigned_less [of page] by simp
  have pos: "0 < unat page" using assms by (simp add: unat_gt_0)
  have up: "unat (ucast page :: 64 word) = unat page"
    using p by (simp add: unsigned_ucast_eq take_bit_eq_mod) 
  show m: "unat (addr mod ucast page) = unat addr mod unat page"
    by (simp add: unat_mod up)
  have "unat addr mod unat page < unat page" using pos by simp
  with p have "unat addr mod unat page < 2 ^ 32" by linarith
  then show "unat (ucast (addr mod ucast page) :: 32 word) = unat addr mod unat page"
    using m by (simp add: unsigned_ucast_eq take_bit_eq_mod)
qed

lemma program_chunk_bounds:
  assumes page: "page \<noteq> 0" and sz: "sz \<noteq> 0"
  shows "0 < unat (program_chunk page addr sz) \<and> unat (program_chunk page addr sz) \<le> unat sz"
proof -
  define P where "P = unat page"
  define S where "S = unat sz"
  define ofs where "ofs = unat addr mod P"
  define w where "w = (ucast (addr mod ucast page) :: 32 word)"
  have P: "0 < P" "P < 2 ^ 32" using page unsigned_less [of page] by (simp_all add: P_def unat_gt_0)
  have S: "0 < S" "S < 2 ^ 64" using sz unsigned_less [of sz] by (simp_all add: S_def unat_gt_0)
  have o: "ofs < P" using P by (simp add: ofs_def)
  have o32: "unat w = ofs"
    using unat_offset(1) [OF page] by (simp add: ofs_def P_def w_def)
  have o64: "unat (ucast w :: 64 word) = ofs"
    using o32 o P by (simp add: unsigned_ucast_eq take_bit_eq_mod)
  have up: "unat (ucast page :: 64 word) = P"
    using P by (simp add: unsigned_ucast_eq take_bit_eq_mod P_def)
  have cond: "((ucast w :: 64 word) + sz < ucast page) = ((ofs + S) mod 2 ^ 64 < P)"
    by (simp only: word_less_nat_alt unat_word_ariths o64 up S_def) simp
  have pc: "program_chunk page addr sz = (if (ucast w :: 64 word) + sz < ucast page then ucast sz else page - w)"
    by (simp only: program_chunk_def Let_def w_def)
  show ?thesis
  proof (cases "(ofs + S) mod 2 ^ 64 < P")
    case True
    then have c: "program_chunk page addr sz = ucast sz"
      using cond pc by simp
    have u: "unat (ucast sz :: 32 word) = S mod 2 ^ 32"
      by (simp add: unsigned_ucast_eq take_bit_eq_mod S_def)
    have "0 < S mod 2 ^ 32"
    proof (cases "ofs + S < 2 ^ 64")
      case True
      with \<open>(ofs + S) mod 2 ^ 64 < P\<close> have "ofs + S < P" by simp
      with P have "S < 2 ^ 32" by simp
      with S show ?thesis by simp
    next
      case False
      then have ge: "2 ^ 64 - 2 ^ 32 < S" using o P by simp
      have "S = (S - (2 ^ 64 - 2 ^ 32)) + 2 ^ 32 * (2 ^ 32 - 1)" using ge by simp
      then have "S mod 2 ^ 32 = (S - (2 ^ 64 - 2 ^ 32)) mod 2 ^ 32"
        by (metis mod_mult_self2)
      moreover have "S - (2 ^ 64 - 2 ^ 32) < 2 ^ 32" using S by simp
      ultimately have "S mod 2 ^ 32 = S - (2 ^ 64 - 2 ^ 32)" by simp
      with ge show ?thesis by simp
    qed
    moreover have "S mod 2 ^ 32 \<le> S" by simp
    ultimately show ?thesis using c u by (simp add: S_def)
  next
    case False
    then have c: "program_chunk page addr sz = page - w"
      using cond pc by simp
    have le: "w \<le> page"
      using o o32 by (simp add: word_le_nat_alt P_def)
    have u: "unat (page - w) = P - ofs"
      using unat_sub [OF le] o32 by (simp add: P_def)
    have "P \<le> ofs + S"
    proof (cases "ofs + S < 2 ^ 64")
      case True
      with False show ?thesis by simp
    next
      case False
      with P show ?thesis by simp
    qed
    then show ?thesis using c u o by (simp add: S_def)
  qed
qed
lemma program_chunk_decreases:
  assumes page: "page \<noteq> 0" and sz: "sz \<noteq> 0"
  shows "unat (sz - ucast (program_chunk page addr sz)) < unat sz"
proof -
  from program_chunk_bounds [OF page sz, of addr]
  have b: "0 < unat (program_chunk page addr sz)" "unat (program_chunk page addr sz) \<le> unat sz"
    by simp_all
  have "unat (program_chunk page addr sz) < 2 ^ 32"
    using unsigned_less [of "program_chunk page addr sz", where 'a = nat] by simp
  then have "unat (program_chunk page addr sz) < 2 ^ 64"
    by simp
  then have u: "unat (ucast (program_chunk page addr sz) :: bd_size_t) = unat (program_chunk page addr sz)"
    by (simp add: unsigned_ucast_eq take_bit_eq_mod)
  then have "(ucast (program_chunk page addr sz) :: bd_size_t) \<le> sz"
    using b by (simp add: word_le_nat_alt)
  from unat_sub [OF this] u b show ?thesis by simp
qed

text \<open>
  \<^verbatim>\<open>program\<close>: the buffer is the list of bytes behind the pointer; advancing the
  pointer drops the chunk. The mutex is not modelled (one thread).
\<close>

function program_loop ::
  "QSPIFBlockDevice \<Rightarrow> uint8_t list \<Rightarrow> bd_addr_t \<Rightarrow> bd_size_t
     \<Rightarrow> (qspif_bd_error \<times> QSPIFBlockDevice) option" where
  "program_loop st buffer addr sz =
     (if sz > 0 then
        (if page_size_bytes st = 0 then None
         else do {
           (wren, st1) \<leftarrow> set_write_enable st;
           if wren \<noteq> 0 then Some (QSPIF_BD_ERROR_WREN_FAILED, st1)
           else do {
             (result, written_bytes, st2) \<leftarrow>
                qspi_send_program_command (prog_instruction st1) buffer addr
                  (program_chunk (page_size_bytes st) addr sz) st1;
             if result \<noteq> QSPI_STATUS_OK \<or> program_chunk (page_size_bytes st) addr sz \<noteq> written_bytes
             then Some (QSPIF_BD_ERROR_DEVICE_ERROR, st2)
             else do {
               (ready, st3) \<leftarrow> is_mem_ready st2;
               if \<not> ready then Some (QSPIF_BD_ERROR_READY_FAILED, st3)
               else program_loop st3
                      (drop (unat (program_chunk (page_size_bytes st) addr sz)) buffer)
                      (addr + ucast (program_chunk (page_size_bytes st) addr sz))
                      (sz - ucast (program_chunk (page_size_bytes st) addr sz))
             }
           }
         })
      else Some (QSPIF_BD_ERROR_OK, st))"
  by pat_completeness auto
termination
  by (relation "measure (\<lambda>(st, buffer, addr, sz). unat sz)")
    (auto simp: program_chunk_decreases)

declare program_loop.simps [simp del]

definition program ::
  "QSPIFBlockDevice \<Rightarrow> uint8_t list \<Rightarrow> bd_addr_t \<Rightarrow> bd_size_t
     \<Rightarrow> (qspif_bd_error \<times> QSPIFBlockDevice) option" where
  "program st buffer addr sz = program_loop st buffer addr sz"

section \<open>Erase\<close>

text \<open>
  \<^verbatim>\<open>get_erase_size(addr)\<close>: the size of the first erase type, in index order, whose
  bit is set in the bitfield of the region found for the address; the minimum common
  erase size when no region is found or no bit is set. The result is an \<^verbatim>\<open>int\<close>
  converted to \<^verbatim>\<open>bd_size_t\<close>.
\<close>

function get_erase_size_loop ::
  "QSPIFBlockDevice \<Rightarrow> int \<Rightarrow> uint8_t \<Rightarrow> int \<Rightarrow> int32_t \<Rightarrow> int32_t" where
  "get_erase_size_loop st region type_mask i_ind min_region_erase_size =
     (if i_ind < 4 then
        (if region_erase_types_bitfield st region AND type_mask \<noteq> 0
         then erase_type_size_arr st i_ind
         else get_erase_size_loop st region (push_bit 1 type_mask) (i_ind + 1) min_region_erase_size)
      else min_region_erase_size)"
  by pat_completeness auto
termination
  by (relation "measure (\<lambda>(st, region, type_mask, i_ind, m). nat (4 - i_ind))") auto

declare get_erase_size_loop.simps [simp del]

definition get_erase_size :: "QSPIFBlockDevice \<Rightarrow> bd_addr_t \<Rightarrow> bd_size_t" where
  "get_erase_size st addr =
     (let region = utils_find_addr_region st addr;
          min_region_erase_size = min_common_erase_size st
      in scast (if region \<noteq> -1
                then get_erase_size_loop st region 0x01 0 min_region_erase_size
                else min_region_erase_size))"

text \<open>
  \<^verbatim>\<open>_utils_iterate_next_largest_erase_type\<close>: from type 4 down to type 1; a type whose
  bit is set becomes the candidate; the loop stops at it when both the size and the
  distance to the boundary are greater than its erase size, and clears its bit from the
  caller's bitfield otherwise. The result is the last candidate (0 when there was none)
  and the updated bitfield.
\<close>

function utils_iterate_next_largest_erase_type_loop ::
  "QSPIFBlockDevice \<Rightarrow> uint8_t \<Rightarrow> int32_t \<Rightarrow> int32_t \<Rightarrow> int32_t \<Rightarrow> uint8_t \<Rightarrow> int \<Rightarrow> int
     \<Rightarrow> int \<times> uint8_t" where
  "utils_iterate_next_largest_erase_type_loop st bitfield sz offset boundry type_mask i_ind
       largest_erase_type =
     (if i_ind \<ge> 0 then
        (if bitfield AND type_mask \<noteq> 0 then
           (if sint sz > sint (erase_type_size_arr st i_ind)
                \<and> sint (boundry - offset) > sint (erase_type_size_arr st i_ind)
            then (i_ind, bitfield)
            else utils_iterate_next_largest_erase_type_loop st (bitfield AND NOT type_mask)
                   sz offset boundry (drop_bit 1 type_mask) (i_ind - 1) i_ind)
         else utils_iterate_next_largest_erase_type_loop st bitfield
                sz offset boundry (drop_bit 1 type_mask) (i_ind - 1) largest_erase_type)
      else (largest_erase_type, bitfield))"
  by pat_completeness auto
termination
  by (relation "measure (\<lambda>(st, bitfield, sz, offset, boundry, type_mask, i_ind, l). nat (i_ind + 1))")
    auto

declare utils_iterate_next_largest_erase_type_loop.simps [simp del]

definition utils_iterate_next_largest_erase_type ::
  "QSPIFBlockDevice \<Rightarrow> uint8_t \<Rightarrow> int32_t \<Rightarrow> int32_t \<Rightarrow> int32_t \<Rightarrow> int \<times> uint8_t" where
  "utils_iterate_next_largest_erase_type st bitfield sz offset boundry =
     utils_iterate_next_largest_erase_type_loop st bitfield sz offset boundry 0x08 3 0"

text \<open>
  The chunk of one round of \<^verbatim>\<open>erase\<close>: \<^verbatim>\<open>offset = addr % _erase_type_size_arr[type]\<close>,
  \<^verbatim>\<open>chunk = ((offset + size) < _erase_type_size_arr[type]) ? size :
  (_erase_type_size_arr[type] - offset)\<close>, on 32 bits.
\<close>

definition erase_chunk :: "uint32_t \<Rightarrow> bd_addr_t \<Rightarrow> int32_t \<Rightarrow> uint32_t" where
  "erase_chunk type_size addr sz =
     (let offset = (ucast (addr mod ucast type_size) :: uint32_t)
      in if offset + sz < type_size then sz else type_size - offset)"

lemma sint_eq_uint:
  fixes x :: "32 word"
  shows "0 \<le> sint x \<Longrightarrow> uint x = sint x"
    and "uint x < 2147483648 \<Longrightarrow> sint x = uint x"
proof -
  show "uint x = sint x" if "0 \<le> sint x"
  proof -
    have "sint x < 2 ^ 32" using sint_lt [of x] by simp
    with that have "take_bit 32 (sint x) = sint x" by (intro take_bit_int_eq_self)
    then show ?thesis using uint_sint [of x] by simp
  qed
  show "sint x = uint x" if "uint x < 2147483648"
  proof -
    have "- 2147483648 \<le> uint x" using uint_ge_0 [of x] by linarith
    with that have "- (2 ^ 31) \<le> uint x" "uint x < 2 ^ 31" by simp_all
    then have "signed_take_bit 31 (uint x) = uint x"
      by (intro signed_take_bit_int_eq_self)
    then show ?thesis by (simp add: sint_uint)
  qed
qed

lemma erase_chunk_bounds:
  assumes ts: "type_size \<noteq> 0" and sz: "0 < sint sz"
  shows "0 < unat (erase_chunk type_size addr sz) \<and> unat (erase_chunk type_size addr sz) \<le> unat sz"
proof -
  define T where "T = unat type_size"
  define S where "S = unat sz"
  define ofs where "ofs = unat addr mod T"
  define w where "w = (ucast (addr mod ucast type_size) :: 32 word)"
  have T: "0 < T" "T < 2 ^ 32"
    using ts unsigned_less [of type_size, where 'a = nat] by (simp_all add: T_def unat_gt_0)
  have "sz \<noteq> 0" using sz by auto
  then have S: "0 < S" by (simp add: S_def unat_gt_0)
  have o: "ofs < T" using T by (simp add: ofs_def)
  have o32: "unat w = ofs"
    using unat_offset(1) [OF ts] by (simp add: ofs_def T_def w_def)
  have cond: "(w + sz < type_size) = ((ofs + S) mod 2 ^ 32 < T)"
    by (simp only: word_less_nat_alt unat_word_ariths o32 S_def T_def) simp
  have ec: "erase_chunk type_size addr sz = (if w + sz < type_size then sz else type_size - w)"
    by (simp only: erase_chunk_def Let_def w_def)
  show ?thesis
  proof (cases "(ofs + S) mod 2 ^ 32 < T")
    case True
    then show ?thesis using ec cond S by (simp add: S_def)
  next
    case False
    then have c: "erase_chunk type_size addr sz = type_size - w"
      using cond ec by simp
    have le: "w \<le> type_size"
      using o o32 by (simp add: word_le_nat_alt T_def)
    have u: "unat (type_size - w) = T - ofs"
      using unat_sub [OF le] o32 by (simp add: T_def)
    have "(ofs + S) mod 2 ^ 32 \<le> ofs + S" by simp
    with False have "T \<le> ofs + S" by linarith
    then show ?thesis using c u o by (simp add: S_def)
  qed
qed

lemma erase_chunk_decreases:
  assumes ts: "type_size \<noteq> 0" and sz: "0 < sint sz"
  shows "sint (sz - erase_chunk type_size addr sz) < sint sz"
    and "0 \<le> sint (sz - erase_chunk type_size addr sz)"
proof -
  define c where "c = erase_chunk type_size addr sz"
  from erase_chunk_bounds [OF ts sz, of addr]
  have b: "0 < unat c" "unat c \<le> unat sz"
    by (simp_all add: c_def)
  have s: "uint sz = sint sz" using sz sint_eq_uint(1) [of sz] by simp
  have "sint sz < 2147483648" using sint_lt [of sz] by simp
  with s have lt: "uint sz < 2147483648" by simp
  have le: "c \<le> sz" using b by (simp add: word_le_nat_alt)
  then have le': "uint c \<le> uint sz" by (simp add: word_le_def)
  have "c \<noteq> 0" using b by auto
  then have "uint c \<noteq> 0" by (simp add: uint_0_iff)
  moreover have "0 \<le> uint c" by simp
  ultimately have pos: "0 < uint c" by linarith
  have u': "uint (sz - c) = uint sz - uint c"
    using le' by (simp add: uint_sub_lem)
  with pos lt have "uint (sz - c) < 2147483648" by linarith
  from sint_eq_uint(2) [OF this] have e: "sint (sz - c) = uint sz - uint c"
    using u' by simp
  show "sint (sz - erase_chunk type_size addr sz) < sint sz"
    using e s pos unfolding c_def by linarith
  show "0 \<le> sint (sz - erase_chunk type_size addr sz)"
    using e le' unfolding c_def by linarith
qed
text \<open>
  \<^verbatim>\<open>erase\<close>. The region and its bitfield are read before the checks. The two
  alignment checks divide by \<^verbatim>\<open>get_erase_size\<close>, the second only when the first
  passes. In the loop, \<^verbatim>\<open>size\<close> is the request truncated to \<^verbatim>\<open>int\<close>.
\<close>

function erase_loop ::
  "QSPIFBlockDevice \<Rightarrow> bd_addr_t \<Rightarrow> int32_t \<Rightarrow> int \<Rightarrow> uint8_t
     \<Rightarrow> (qspif_bd_error \<times> QSPIFBlockDevice) option" where
  "erase_loop st addr sz region bitfield =
     (if sint sz > 0 then
        (case utils_iterate_next_largest_erase_type st bitfield sz (ucast addr)
                (ucast (region_high_boundary st region)) of
           (type, bitfield1) \<Rightarrow>
             if erase_type_size_arr st type = 0 then None
             else do {
               (wren, st1) \<leftarrow> set_write_enable st;
               if wren \<noteq> 0 then Some (QSPIF_BD_ERROR_WREN_FAILED, st1)
               else do {
                 (status, st2) \<leftarrow>
                    qspi_send_erase_command (erase_type_inst_arr st type) addr (scast sz) st1;
                 if status \<noteq> QSPI_STATUS_OK then Some (QSPIF_BD_ERROR_DEVICE_ERROR, st2)
                 else do {
                   (ready, st3) \<leftarrow> is_mem_ready st2;
                   if \<not> ready then Some (QSPIF_BD_ERROR_READY_FAILED, st3)
                   else
                     (if sint (sz - erase_chunk (erase_type_size_arr st type) addr sz) > 0
                          \<and> addr + ucast (erase_chunk (erase_type_size_arr st type) addr sz)
                              > region_high_boundary st2 region
                      then erase_loop st3
                             (addr + ucast (erase_chunk (erase_type_size_arr st type) addr sz))
                             (sz - erase_chunk (erase_type_size_arr st type) addr sz)
                             (region + 1)
                             (region_erase_types_bitfield st2 (region + 1))
                      else erase_loop st3
                             (addr + ucast (erase_chunk (erase_type_size_arr st type) addr sz))
                             (sz - erase_chunk (erase_type_size_arr st type) addr sz)
                             region bitfield1)
                 }
               }
             })
      else Some (QSPIF_BD_ERROR_OK, st))"
  by pat_completeness auto
termination
  by (relation "measure (\<lambda>(st, addr, sz, region, bitfield). nat (sint sz))")
    (auto simp: erase_chunk_decreases)

declare erase_loop.simps [simp del]

definition erase ::
  "QSPIFBlockDevice \<Rightarrow> bd_addr_t \<Rightarrow> bd_size_t \<Rightarrow> (qspif_bd_error \<times> QSPIFBlockDevice) option" where
  "erase st addr in_size =
     (let sz = (ucast in_size :: int32_t);
          region = utils_find_addr_region st addr;
          bitfield = region_erase_types_bitfield st region
      in if addr + in_size > device_size_bytes st
         then Some (QSPIF_BD_ERROR_INVALID_ERASE_PARAMS, st)
         else if get_erase_size st addr = 0 then None
         else if addr mod get_erase_size st addr \<noteq> 0
         then Some (QSPIF_BD_ERROR_INVALID_ERASE_PARAMS, st)
         else if get_erase_size st (addr + in_size - 1) = 0 then None
         else if (addr + in_size) mod get_erase_size st (addr + in_size - 1) \<noteq> 0
         then Some (QSPIF_BD_ERROR_INVALID_ERASE_PARAMS, st)
         else erase_loop st addr sz region bitfield)"

section \<open>Discovery: parameter headers\<close>

text \<open>
  \<^verbatim>\<open>_qspi_send_read_sfdp_command\<close>: the format is set for the read (1-1-1, 3-byte
  address, 8 dummy cycles), the read is issued, and the format is set back. The result
  is the status and the receive buffer as an array; the bytes the transport did not
  store (indeterminate in the source) read as 0.
\<close>

definition QSPIF_RSFDP_DUMMY_CYCLES :: int where
  "QSPIF_RSFDP_DUMMY_CYCLES = 8"

definition qspi_send_read_sfdp_command ::
  "bd_addr_t \<Rightarrow> nat \<Rightarrow> QSPIFBlockDevice
     \<Rightarrow> qspi_status_t \<times> (int \<Rightarrow> uint8_t) \<times> QSPIFBlockDevice" where
  "qspi_send_read_sfdp_command addr rx_length st =
     (case transact (Configure_format QSPI_CFG_BUS_SINGLE QSPI_CFG_BUS_SINGLE
                       QSPI_CFG_ADDR_SIZE_24 QSPI_CFG_BUS_SINGLE QSPI_CFG_ALT_SIZE_8
                       QSPI_CFG_BUS_SINGLE QSPIF_RSFDP_DUMMY_CYCLES) (qspi st) of
        (r1, q1) \<Rightarrow>
          (case transact (Read QSPIF_INST_RSFDP (ucast addr) rx_length) q1 of
             ((status, rx, n), q2) \<Rightarrow>
               (case transact (Configure_format QSPI_CFG_BUS_SINGLE QSPI_CFG_BUS_SINGLE
                                 (address_size st) QSPI_CFG_BUS_SINGLE QSPI_CFG_ALT_SIZE_8
                                 QSPI_CFG_BUS_SINGLE 0) q2 of
                  (r3, q3) \<Rightarrow> (status, arr_of 0 (take rx_length rx), st\<lparr>qspi := q3\<rparr>))))"

text \<open>
  The four reference parameters of \<^verbatim>\<open>_sfdp_parse_sfdp_headers\<close>; \<^verbatim>\<open>init\<close> passes
  them in as 0.
\<close>

record sfdp_tables =
  basic_table_addr :: uint32_t
  basic_table_size :: uint32_t
  sector_map_table_addr :: uint32_t
  sector_map_table_size :: uint32_t

definition SFDP_DEFAULT_BASIC_PARAMS_TABLE_SIZE_BYTES :: int where
  "SFDP_DEFAULT_BASIC_PARAMS_TABLE_SIZE_BYTES = 64"

text \<open>The table address of a parameter header: bytes 6, 5 and 4, most significant first.\<close>

definition param_header_addr :: "(int \<Rightarrow> uint8_t) \<Rightarrow> uint32_t" where
  "param_header_addr param_header =
     push_bit 16 (ucast (param_header 6)) OR push_bit 8 (ucast (param_header 5))
       OR ucast (param_header 4)"

text \<open>
  The loop over the parameter headers. A header whose major version (byte 2) is not 1
  ends the parse with -1. The basic table is recognised by \<^verbatim>\<open>param_header[0] == 0\<close>,
  the sector map by \<^verbatim>\<open>param_header[0] == 81\<close>, each with
  \<^verbatim>\<open>param_header[7] == 0xFF\<close>; every other header is skipped.
\<close>

function sfdp_parse_param_headers_loop ::
  "int \<Rightarrow> int \<Rightarrow> bd_addr_t \<Rightarrow> sfdp_tables \<Rightarrow> QSPIFBlockDevice
     \<Rightarrow> int \<times> sfdp_tables \<times> QSPIFBlockDevice" where
  "sfdp_parse_param_headers_loop i_ind number_of_param_headers addr tables st =
     (if i_ind < number_of_param_headers then
        (case qspi_send_read_sfdp_command addr 8 st of
           (status, param_header, st1) \<Rightarrow>
             if status \<noteq> QSPI_STATUS_OK then (-1, tables, st1)
             else if param_header 2 \<noteq> 1 then (-1, tables, st1)
             else if param_header 0 = 0 \<and> param_header 7 = 0xFF then
               sfdp_parse_param_headers_loop (i_ind + 1) number_of_param_headers (addr + 8)
                 (tables\<lparr>basic_table_addr := param_header_addr param_header,
                         basic_table_size :=
                           (if uint (param_header 3) * 4 < SFDP_DEFAULT_BASIC_PARAMS_TABLE_SIZE_BYTES
                            then ucast (param_header 3) * 4 else 64)\<rparr>)
                 st1
             else if param_header 0 = 81 \<and> param_header 7 = 0xFF then
               sfdp_parse_param_headers_loop (i_ind + 1) number_of_param_headers (addr + 8)
                 (tables\<lparr>sector_map_table_addr := param_header_addr param_header,
                         sector_map_table_size := ucast (param_header 3) * 4\<rparr>)
                 st1
             else
               sfdp_parse_param_headers_loop (i_ind + 1) number_of_param_headers (addr + 8)
                 tables st1)
      else (0, tables, st))"
  by pat_completeness auto
termination
  by (relation "measure (\<lambda>(i_ind, n, addr, tables, st). nat (n - i_ind))") auto

declare sfdp_parse_param_headers_loop.simps [simp del]

text \<open>
  \<^verbatim>\<open>_sfdp_parse_sfdp_headers\<close>: the 8-byte header must start with \<open>SFDP\<close> and have
  major version 1 in byte 5; byte 6 plus 1 is the number of parameter headers, which
  follow from address 8.
\<close>

definition sfdp_parse_sfdp_headers ::
  "sfdp_tables \<Rightarrow> QSPIFBlockDevice \<Rightarrow> int \<times> sfdp_tables \<times> QSPIFBlockDevice" where
  "sfdp_parse_sfdp_headers tables st =
     (case qspi_send_read_sfdp_command 0 8 st of
        (status, sfdp_header, st1) \<Rightarrow>
          if status \<noteq> QSPI_STATUS_OK then (-1, tables, st1)
          else if \<not> (map sfdp_header [0, 1, 2, 3] = [0x53, 0x46, 0x44, 0x50] \<and> sfdp_header 5 = 1)
          then (-1, tables, st1)
          else sfdp_parse_param_headers_loop 0 (uint (sfdp_header 6) + 1) 8 tables st1)"

section \<open>Discovery: erase types\<close>

text \<open>\<^verbatim>\<open>local_math_power\<close>: \<^verbatim>\<open>result *= base\<close>, \<^verbatim>\<open>exp\<close> times, on \<^verbatim>\<open>int\<close>.\<close>

function local_math_power_loop :: "int32_t \<Rightarrow> int32_t \<Rightarrow> int32_t \<Rightarrow> int32_t" where
  "local_math_power_loop result base exp =
     (if exp \<noteq> 0 then local_math_power_loop (result * base) base (exp - 1) else result)"
  by pat_completeness auto
termination
  by (relation "measure (\<lambda>(result, base, exp). unat exp)") (auto simp: measure_unat)

declare local_math_power_loop.simps [simp del]

definition local_math_power :: "int32_t \<Rightarrow> int32_t \<Rightarrow> int32_t" where
  "local_math_power base exp = local_math_power_loop 1 base exp"

text \<open>
  One round of the loop of \<^verbatim>\<open>_sfdp_detect_erase_types_inst_and_size\<close>, for the slot
  \<^verbatim>\<open>i_ind\<close> with its bit \<^verbatim>\<open>bitfield\<close>. The output parameters are the members
  \<^verbatim>\<open>_erase4k_inst\<close>, \<^verbatim>\<open>_erase_type_inst_arr\<close> and \<^verbatim>\<open>_erase_type_size_arr\<close>, as in
  the only call. The flag \<^verbatim>\<open>found_4Kerase_type\<close> only feeds a log message.
\<close>

definition detect_erase_type_slot ::
  "(int \<Rightarrow> uint8_t) \<Rightarrow> int \<Rightarrow> uint8_t \<Rightarrow> QSPIFBlockDevice \<Rightarrow> QSPIFBlockDevice" where
  "detect_erase_type_slot basic_param_table_ptr i_ind bitfield st =
     (let sz = local_math_power 2 (ucast (basic_param_table_ptr (28 + 2 * i_ind)));
          st1 = st\<lparr>erase_type_inst_arr := (erase_type_inst_arr st)(i_ind := 0xff),
                   erase_type_size_arr := (erase_type_size_arr st)(i_ind := sz)\<rparr>
      in if sz > 1 then
           (let inst = uint (basic_param_table_ptr (29 + 2 * i_ind));
                st2 = st1\<lparr>erase_type_inst_arr := (erase_type_inst_arr st1)(i_ind := inst)\<rparr>;
                st3 = (if sz < min_common_erase_size st2 \<or> min_common_erase_size st2 = 0
                       then st2\<lparr>min_common_erase_size := sz\<rparr> else st2);
                st4 = (if sz = 4096 \<and> erase4k_inst st3 \<noteq> inst
                       then st3\<lparr>erase4k_inst := inst\<rparr> else st3)
            in st4\<lparr>region_erase_types_bitfield :=
                      (region_erase_types_bitfield st4)
                        (0 := region_erase_types_bitfield st4 0 OR bitfield)\<rparr>)
         else st1)"

function sfdp_detect_erase_types_loop ::
  "(int \<Rightarrow> uint8_t) \<Rightarrow> int \<Rightarrow> uint8_t \<Rightarrow> QSPIFBlockDevice \<Rightarrow> QSPIFBlockDevice" where
  "sfdp_detect_erase_types_loop basic_param_table_ptr i_ind bitfield st =
     (if i_ind < 4 then
        sfdp_detect_erase_types_loop basic_param_table_ptr (i_ind + 1) (push_bit 1 bitfield)
          (detect_erase_type_slot basic_param_table_ptr i_ind bitfield st)
      else st)"
  by pat_completeness auto
termination
  by (relation "measure (\<lambda>(t, i_ind, bitfield, st). nat (4 - i_ind))") auto

declare sfdp_detect_erase_types_loop.simps [simp del]

text \<open>
  \<^verbatim>\<open>_sfdp_detect_erase_types_inst_and_size\<close>: the legacy 4 KiB erase instruction is
  byte 1 of the table; the four slots are decoded when the table is longer than 28
  bytes.
\<close>

definition sfdp_detect_erase_types_inst_and_size ::
  "(int \<Rightarrow> uint8_t) \<Rightarrow> int \<Rightarrow> QSPIFBlockDevice \<Rightarrow> QSPIFBlockDevice" where
  "sfdp_detect_erase_types_inst_and_size basic_param_table_ptr basic_param_table_size st =
     (let st1 = st\<lparr>erase4k_inst := uint (basic_param_table_ptr 1)\<rparr>
      in if basic_param_table_size > 28
         then sfdp_detect_erase_types_loop basic_param_table_ptr 0 0x01 st1
         else st1)"

section \<open>Discovery: sector map\<close>

text \<open>
  The 32-bit word read at a byte offset of the table, least significant byte first.
\<close>

definition table_word :: "(int \<Rightarrow> uint8_t) \<Rightarrow> int \<Rightarrow> uint32_t" where
  "table_word t i =
     ucast (t i) OR push_bit 8 (ucast (t (i + 1))) OR push_bit 16 (ucast (t (i + 2)))
       OR push_bit 24 (ucast (t (i + 3)))"

text \<open>
  The loop over the regions of \<^verbatim>\<open>_sfdp_parse_sector_map_table\<close>; it carries
  \<^verbatim>\<open>prev_boundary\<close> and \<^verbatim>\<open>min_common_erase_type_bits\<close>, both \<^verbatim>\<open>int\<close>, and returns
  the latter.
\<close>

function sector_map_regions_loop ::
  "(int \<Rightarrow> uint8_t) \<Rightarrow> int \<Rightarrow> int32_t \<Rightarrow> int32_t \<Rightarrow> QSPIFBlockDevice
     \<Rightarrow> int32_t \<times> QSPIFBlockDevice" where
  "sector_map_regions_loop sector_map_table i_ind prev_boundary min_common_erase_type_bits st =
     (if i_ind < regions_count st then
        (let tmp_region_size = drop_bit 8 (table_word sector_map_table ((i_ind + 1) * 4)) AND 0x00FFFFFF;
             region_size = (tmp_region_size + 1) * 256;
             types = sector_map_table ((i_ind + 1) * 4) AND 0x0F;
             high_boundary = (scast ((region_size - 1) + prev_boundary) :: bd_size_t)
         in sector_map_regions_loop sector_map_table (i_ind + 1) (ucast (high_boundary + 1))
              (min_common_erase_type_bits AND ucast types)
              (st\<lparr>region_size_bytes := (region_size_bytes st)(i_ind := region_size),
                  region_erase_types_bitfield := (region_erase_types_bitfield st)(i_ind := types),
                  region_high_boundary := (region_high_boundary st)(i_ind := high_boundary)\<rparr>))
      else (min_common_erase_type_bits, st))"
  by pat_completeness auto
termination
  by (relation "measure (\<lambda>(t, i_ind, p, m, st). nat (regions_count st - i_ind))") auto

declare sector_map_regions_loop.simps [simp del]

text \<open>
  The minimum common erase size: the size of the first type, in index order, whose bit
  is set in the common bits; 0 when there is none.
\<close>

function min_common_erase_size_loop ::
  "QSPIFBlockDevice \<Rightarrow> int32_t \<Rightarrow> uint8_t \<Rightarrow> int \<Rightarrow> uint32_t" where
  "min_common_erase_size_loop st min_common_erase_type_bits type_mask i_ind =
     (if i_ind < 4 then
        (if min_common_erase_type_bits AND ucast type_mask \<noteq> 0 then erase_type_size_arr st i_ind
         else min_common_erase_size_loop st min_common_erase_type_bits (push_bit 1 type_mask)
                (i_ind + 1))
      else 0)"
  by pat_completeness auto
termination
  by (relation "measure (\<lambda>(st, m, type_mask, i_ind). nat (4 - i_ind))") auto

declare min_common_erase_size_loop.simps [simp del]

text \<open>
  \<^verbatim>\<open>_sfdp_parse_sector_map_table\<close>. The test on the first word is
  \<^verbatim>\<open>!((sector_map_table[0] & 0x3) == 0x03) && (sector_map_table[1] == 0x0)\<close>. The cap
  \<^verbatim>\<open>QSPIF_MAX_REGIONS\<close> is declared outside this source file and is a parameter here.
\<close>

definition sfdp_parse_sector_map_table ::
  "int \<Rightarrow> uint32_t \<Rightarrow> uint32_t \<Rightarrow> QSPIFBlockDevice \<Rightarrow> int \<times> QSPIFBlockDevice" where
  "sfdp_parse_sector_map_table QSPIF_MAX_REGIONS table_addr table_size st =
     (case qspi_send_read_sfdp_command (ucast table_addr) (unat table_size) st of
        (status, sector_map_table, st1) \<Rightarrow>
          if status \<noteq> QSPI_STATUS_OK then (-1, st1)
          else if \<not> (sector_map_table 0 AND 0x3 = 0x03) \<and> sector_map_table 1 = 0x0 then (-1, st1)
          else
            (let st2 = st1\<lparr>regions_count := uint (sector_map_table 2) + 1\<rparr>
             in if regions_count st2 > QSPIF_MAX_REGIONS then (-1, st2)
                else
                  (case sector_map_regions_loop sector_map_table 0 0 0x0F st2 of
                     (min_common_erase_type_bits, st3) \<Rightarrow>
                       (0, st3\<lparr>min_common_erase_size :=
                                 min_common_erase_size_loop st3 min_common_erase_type_bits 0x01 0\<rparr>))))"

section \<open>Discovery: 4-byte addressing\<close>

definition QSPIF_BASIC_PARAM_TABLE_4BYTE_ADDR_BYTE :: int where
  "QSPIF_BASIC_PARAM_TABLE_4BYTE_ADDR_BYTE = 63"

definition FOURBYTE_ADDR_B7_BITMASK :: uint8_t where
  "FOURBYTE_ADDR_B7_BITMASK = 0x01"

definition FOURBYTE_ADDR_B7_WREN_BITMASK :: uint8_t where
  "FOURBYTE_ADDR_B7_WREN_BITMASK = 0x02"

definition FOURBYTE_ADDR_EXT_ADDR_REG_BITMASK :: uint8_t where
  "FOURBYTE_ADDR_EXT_ADDR_REG_BITMASK = 0x04"

definition FOURBYTE_ADDR_BANK_REG_BITMASK :: uint8_t where
  "FOURBYTE_ADDR_BANK_REG_BITMASK = 0x08"

definition FOURBYTE_ADDR_CONF_REG_BITMASK :: uint8_t where
  "FOURBYTE_ADDR_CONF_REG_BITMASK = 0x10"

definition FOURBYTE_ADDR_ALWAYS_BITMASK :: uint8_t where
  "FOURBYTE_ADDR_ALWAYS_BITMASK = 0x40"

text \<open>
  The end of every branch of \<^verbatim>\<open>_sfdp_detect_and_enable_4byte_addressing\<close> that sends a
  command: \<^verbatim>\<open>status = (qspi_status == QSPI_STATUS_OK) ? QSPIF_BD_ERROR_OK :
  QSPIF_BD_ERROR_PARSING_FAILED\<close>, and 4-byte addresses from then on when the status is
  ok.
\<close>

definition enable_4byte_on ::
  "qspi_status_t \<Rightarrow> QSPIFBlockDevice \<Rightarrow> (qspif_bd_error \<times> QSPIFBlockDevice) option" where
  "enable_4byte_on qspi_status st =
     (if qspi_status = QSPI_STATUS_OK
      then Some (QSPIF_BD_ERROR_OK, st\<lparr>address_size := QSPI_CFG_ADDR_SIZE_32\<rparr>)
      else Some (QSPIF_BD_ERROR_PARSING_FAILED, st))"

text \<open>
  \<^verbatim>\<open>_sfdp_detect_and_enable_4byte_addressing\<close>: byte 63 of the basic table names the
  ways into 4-byte addressing that the part supports; the first one supported, in the
  order of the source, is taken. This is the only function of the driver that assigns
  \<^verbatim>\<open>_4byte_msb_reg_write_inst\<close> after the constructor, which sets it to
  \<^verbatim>\<open>QSPI_NO_INST\<close>.
\<close>

definition sfdp_detect_and_enable_4byte_addressing ::
  "(int \<Rightarrow> uint8_t) \<Rightarrow> int \<Rightarrow> QSPIFBlockDevice \<Rightarrow> (qspif_bd_error \<times> QSPIFBlockDevice) option" where
  "sfdp_detect_and_enable_4byte_addressing basic_param_table_ptr basic_param_table_size st =
     (if basic_param_table_size > QSPIF_BASIC_PARAM_TABLE_4BYTE_ADDR_BYTE then
        (let examined_byte = basic_param_table_ptr QSPIF_BASIC_PARAM_TABLE_4BYTE_ADDR_BYTE in
         if examined_byte AND FOURBYTE_ADDR_ALWAYS_BITMASK \<noteq> 0
         then Some (QSPIF_BD_ERROR_OK, st\<lparr>address_size := QSPI_CFG_ADDR_SIZE_32\<rparr>)
         else if examined_byte AND FOURBYTE_ADDR_B7_BITMASK \<noteq> 0
         then do {
           (qspi_status, rx, st1) \<leftarrow>
              qspi_send_general_command 0xB7 QSPI_NO_ADDRESS_COMMAND [] 0 st;
           enable_4byte_on qspi_status st1
         }
         else if examined_byte AND FOURBYTE_ADDR_B7_WREN_BITMASK \<noteq> 0
         then do {
           (wren, st1) \<leftarrow> set_write_enable st;
           if wren = 0 then do {
             (qspi_status, rx, st2) \<leftarrow>
                qspi_send_general_command 0xB7 QSPI_NO_ADDRESS_COMMAND [] 0 st1;
             enable_4byte_on qspi_status st2
           }
           else Some (QSPIF_BD_ERROR_WREN_FAILED, st1)
         }
         else if examined_byte AND FOURBYTE_ADDR_CONF_REG_BITMASK \<noteq> 0
         then do {
           (qspi_status, rx, st1) \<leftarrow>
              qspi_send_general_command 0xB5 QSPI_NO_ADDRESS_COMMAND [] 1 st;
           if qspi_status \<noteq> QSPI_STATUS_OK then Some (QSPIF_BD_ERROR_PARSING_FAILED, st1)
           else do {
             (wren, st2) \<leftarrow> set_write_enable st1;
             if wren = 0 then do {
               (qspi_status2, rx2, st3) \<leftarrow>
                  qspi_send_general_command 0xB1 QSPI_NO_ADDRESS_COMMAND [rx_byte 0 rx OR 0x01] 0 st2;
               enable_4byte_on qspi_status2 st3
             }
             else Some (QSPIF_BD_ERROR_WREN_FAILED, st2)
           }
         }
         else if examined_byte AND FOURBYTE_ADDR_BANK_REG_BITMASK \<noteq> 0
         then do {
           (qspi_status, rx, st1) \<leftarrow>
              qspi_send_general_command 0x17 QSPI_NO_ADDRESS_COMMAND [0x80] 0 st;
           enable_4byte_on qspi_status st1
         }
         else if examined_byte AND FOURBYTE_ADDR_EXT_ADDR_REG_BITMASK \<noteq> 0
         then Some (QSPIF_BD_ERROR_OK,
                st\<lparr>fourbyte_msb_reg_write_inst := 0xC5, address_size := QSPI_CFG_ADDR_SIZE_24\<rparr>)
         else Some (QSPIF_BD_ERROR_OK, st\<lparr>address_size := QSPI_CFG_ADDR_SIZE_24\<rparr>))
      else Some (QSPIF_BD_ERROR_OK, st))"

text \<open>
  The last two steps of \<^verbatim>\<open>_sfdp_parse_basic_param_table\<close>, through which every
  \<^verbatim>\<open>init\<close> that gets as far as the 4-byte addressing passes: the detection above,
  \<open>-1\<close> when it fails, and then a busy poll, \<open>-1\<close> when the flash is not ready, 0
  otherwise.
\<close>

definition sfdp_parse_basic_param_table_end ::
  "(int \<Rightarrow> uint8_t) \<Rightarrow> int \<Rightarrow> QSPIFBlockDevice \<Rightarrow> (int \<times> QSPIFBlockDevice) option" where
  "sfdp_parse_basic_param_table_end param_table table_size st =
     do {
       (status, st1) \<leftarrow> sfdp_detect_and_enable_4byte_addressing param_table table_size st;
       if status \<noteq> QSPIF_BD_ERROR_OK then Some (-1, st1)
       else do {
         (ready, st2) \<leftarrow> is_mem_ready st1;
         if \<not> ready then Some (-1, st2) else Some (0, st2)
       }
     }"

section \<open>Transports and parts used as concrete inputs\<close>

text \<open>
  A flash that accepts every command: a register read returns \<open>0x02\<close> in every byte
  (write-enable latch set, no write in progress) and a write reports the whole length
  as written.
\<close>

definition ideal_flash :: "qspi_event list \<Rightarrow> qspi_event \<Rightarrow> qspi_reply" where
  "ideal_flash tr ev =
     (case ev of
        Command_transfer inst addr tx n \<Rightarrow> (QSPI_STATUS_OK, replicate n 0x02, 0)
      | Write inst addr data len \<Rightarrow> (QSPI_STATUS_OK, [], len)
      | Read inst addr n \<Rightarrow> (QSPI_STATUS_OK, replicate n 0, of_nat n)
      | _ \<Rightarrow> (QSPI_STATUS_OK, [], 0))"

text \<open>The erase commands of a trace: instruction and address, in order.\<close>

definition erase_commands :: "qspi_event list \<Rightarrow> (qspi_inst_t \<times> uint32_t) list" where
  "erase_commands tr =
     [(inst, addr). Command_transfer inst addr tx n \<leftarrow> tr,
        inst \<noteq> QSPIF_WREN \<and> inst \<noteq> QSPIF_INST_RSR1]"

text \<open>
  A 16 MiB part with one region and the erase types 4 KiB at \<open>0x20\<close>, 32 KiB at
  \<open>0x52\<close> and 64 KiB at \<open>0xD8\<close> (the fourth type unsupported: instruction \<open>0xFF\<close>,
  size 1, as the discovery leaves it), 3-byte addresses, page size 256.
\<close>

definition mixed_erase_part :: QSPIFBlockDevice where
  "mixed_erase_part =
     \<lparr> qspi = \<lparr> device = ideal_flash, trace = [] \<rparr>,
       device_size_bytes = 0x1000000,
       page_size_bytes = 256,
       regions_count = 1,
       region_size_bytes = arr_of 0 [0x1000000],
       region_high_boundary = arr_of 0 [0xFFFFFF],
       region_erase_types_bitfield = arr_of 0 [0x07],
       min_common_erase_size = 0x1000,
       erase_type_inst_arr = arr_of 0xFF [0x20, 0x52, 0xD8, 0xFF],
       erase_type_size_arr = arr_of 1 [0x1000, 0x8000, 0x10000, 1],
       read_instruction = 0x03,
       prog_instruction = 0x02,
       erase_instruction = 0x20,
       erase4k_inst = 0x20,
       fourbyte_msb_reg_write_inst = QSPI_NO_INST,
       address_size = QSPI_CFG_ADDR_SIZE_24 \<rparr>"

text \<open>
  An 8 KiB part with two contiguous regions of 4 KiB, \<open>[0, 0xFFF]\<close> and
  \<open>[0x1000, 0x1FFF]\<close>, each erasable in 4 KiB sectors.
\<close>

definition two_region_part :: QSPIFBlockDevice where
  "two_region_part =
     mixed_erase_part
       \<lparr> device_size_bytes := 0x2000,
         regions_count := 2,
         region_size_bytes := arr_of 0 [0x1000, 0x1000],
         region_high_boundary := arr_of 0 [0xFFF, 0x1FFF],
         region_erase_types_bitfield := arr_of 0 [0x01, 0x01],
         erase_type_inst_arr := arr_of 0xFF [0x20, 0xFF, 0xFF, 0xFF],
         erase_type_size_arr := arr_of 1 [0x1000, 1, 1, 1] \<rparr>"

text \<open>A 32 MiB part with one region, 4 KiB sectors and 4-byte addresses.\<close>

definition four_byte_part :: QSPIFBlockDevice where
  "four_byte_part =
     mixed_erase_part
       \<lparr> device_size_bytes := 0x2000000,
         region_size_bytes := arr_of 0 [0x2000000],
         region_high_boundary := arr_of 0 [0x1FFFFFF],
         region_erase_types_bitfield := arr_of 0 [0x01],
         erase_type_inst_arr := arr_of 0xFF [0x20, 0xFF, 0xFF, 0xFF],
         erase_type_size_arr := arr_of 1 [0x1000, 1, 1, 1],
         address_size := QSPI_CFG_ADDR_SIZE_32 \<rparr>"

text \<open>
  A flash that accepts every command and never finishes its write: a register read
  returns \<open>0x03\<close> in every byte (write in progress, write-enable latch set).
\<close>

definition busy_flash :: "qspi_event list \<Rightarrow> qspi_event \<Rightarrow> qspi_reply" where
  "busy_flash tr ev =
     (case ev of
        Command_transfer inst addr tx n \<Rightarrow> (QSPI_STATUS_OK, replicate n 0x03, 0)
      | Write inst addr data len \<Rightarrow> (QSPI_STATUS_OK, [], len)
      | Read inst addr n \<Rightarrow> (QSPI_STATUS_OK, replicate n 0, of_nat n)
      | _ \<Rightarrow> (QSPI_STATUS_OK, [], 0))"

definition busy_part :: QSPIFBlockDevice where
  "busy_part = mixed_erase_part \<lparr> qspi := \<lparr> device = busy_flash, trace = [] \<rparr> \<rparr>"

text \<open>One round of the busy poll on the transport: the sleep and the read of status register 1.\<close>

definition poll_round :: "qspi_event list" where
  "poll_round = [Sleep_for 1, Command_transfer QSPIF_INST_RSR1 0xFFFFFFFF [] 1]"

text \<open>The driver object after further events on its transport.\<close>

definition with_trace :: "QSPIFBlockDevice \<Rightarrow> qspi_event list \<Rightarrow> QSPIFBlockDevice" where
  "with_trace st evs = st\<lparr>qspi := (qspi st)\<lparr>trace := trace (qspi st) @ evs\<rparr>\<rparr>"

text \<open>
  Statement of the type selection of one erase step. A type fits when its erase size is
  below the remaining size and below the distance from the offset to the boundary, both
  compared as \<^verbatim>\<open>int\<close>.
\<close>

definition erase_type_fits ::
  "QSPIFBlockDevice \<Rightarrow> int32_t \<Rightarrow> int32_t \<Rightarrow> int32_t \<Rightarrow> int \<Rightarrow> bool" where
  "erase_type_fits st sz offset boundry i =
     (sint sz > sint (erase_type_size_arr st i)
      \<and> sint (boundry - offset) > sint (erase_type_size_arr st i))"

text \<open>
  The largest type whose bit is set in the bitfield and that fits, with the bits of the
  larger types cleared from the bitfield; when no type with a set bit fits, the
  smallest type whose bit is set (type index 0 when the bitfield has none), with the
  four bits cleared.
\<close>

definition largest_fitting_erase_type ::
  "QSPIFBlockDevice \<Rightarrow> uint8_t \<Rightarrow> int32_t \<Rightarrow> int32_t \<Rightarrow> int32_t \<Rightarrow> int \<times> uint8_t" where
  "largest_fitting_erase_type st bf sz off bnd =
     (if bf AND 8 \<noteq> 0 \<and> erase_type_fits st sz off bnd 3 then (3, bf)
      else if bf AND 4 \<noteq> 0 \<and> erase_type_fits st sz off bnd 2 then (2, bf AND NOT 8)
      else if bf AND 2 \<noteq> 0 \<and> erase_type_fits st sz off bnd 1 then (1, bf AND NOT 12)
      else if bf AND 1 \<noteq> 0 \<and> erase_type_fits st sz off bnd 0 then (0, bf AND NOT 14)
      else (if bf AND 1 \<noteq> 0 then 0 else if bf AND 2 \<noteq> 0 then 1
            else if bf AND 4 \<noteq> 0 then 2 else if bf AND 8 \<noteq> 0 then 3 else 0,
            bf AND NOT 15))"

text \<open>
  What the next round of a busy poll reads at a given history of the transport: the
  write-in-progress bit of the status byte, whose buffer the driver sets to \<open>0xFF\<close>
  before the read.
\<close>

definition write_in_progress ::
  "(qspi_event list \<Rightarrow> qspi_event \<Rightarrow> qspi_reply) \<Rightarrow> qspi_event list \<Rightarrow> bool" where
  "write_in_progress dev tr =
     (rx_byte 0xFF (fst (snd (dev (tr @ [Sleep_for 1])
                                (Command_transfer QSPIF_INST_RSR1 0xFFFFFFFF [] 1))))
        AND QSPIF_STATUS_BIT_WIP \<noteq> 0)"

text \<open>\<open>n\<close> rounds of the busy poll, one after the other.\<close>

definition polls :: "nat \<Rightarrow> qspi_event list" where
  "polls n = concat (replicate n poll_round)"

text \<open>
  The number of rounds of a busy poll, started at a given history, whose status read
  shows the write in progress, counted up to the first round that reads the flash
  ready; at most \<open>k\<close> rounds are looked at.
\<close>

fun busy_reads ::
  "(qspi_event list \<Rightarrow> qspi_event \<Rightarrow> qspi_reply) \<Rightarrow> qspi_event list \<Rightarrow> nat \<Rightarrow> nat" where
  "busy_reads dev tr 0 = 0"
| "busy_reads dev tr (Suc k) =
     (if write_in_progress dev tr then Suc (busy_reads dev (tr @ poll_round) k) else 0)"

text \<open>
  The events of a busy poll to ready: one round for every status read that shows the
  write in progress, and the round whose read shows the flash ready.
\<close>

definition poll_to_ready ::
  "(qspi_event list \<Rightarrow> qspi_event \<Rightarrow> qspi_reply) \<Rightarrow> nat \<Rightarrow> qspi_event list \<Rightarrow> qspi_event list" where
  "poll_to_ready dev k tr = polls (Suc (busy_reads dev tr k))"

text \<open>
  A flash on which the driver's commands succeed, and which may be busy: every command
  transfer reports ok; from every history, fewer than \<open>k\<close> rounds of the busy poll read
  the write in progress before a round reads the flash ready; and after a write-enable
  command and any number of rounds of the busy poll, status register 1 reads with the
  write-enable latch set.
\<close>

definition commands_ok :: "(qspi_event list \<Rightarrow> qspi_event \<Rightarrow> qspi_reply) \<Rightarrow> nat \<Rightarrow> bool" where
  "commands_ok dev k =
     ((\<forall>tr inst addr tx n.
         fst (dev tr (Command_transfer inst addr tx n)) = QSPI_STATUS_OK)
      \<and> (\<forall>tr. \<exists>n<k. \<not> write_in_progress dev (tr @ polls n))
      \<and> (\<forall>tr n.
         rx_byte 0 (fst (snd (dev (tr @ Command_transfer QSPIF_WREN 0xFFFFFFFF [] 0 # polls n)
                                 (Command_transfer QSPIF_INST_RSR1 0xFFFFFFFF [] 1))))
           AND QSPIF_STATUS_BIT_WEL \<noteq> 0))"

text \<open>
  A transport on which every write reports ok and reports the whole length as written.
\<close>

definition writes_ok :: "(qspi_event list \<Rightarrow> qspi_event \<Rightarrow> qspi_reply) \<Rightarrow> bool" where
  "writes_ok dev =
     (\<forall>tr inst addr data len.
         fst (dev tr (Write inst addr data len)) = QSPI_STATUS_OK
         \<and> snd (snd (dev tr (Write inst addr data len))) = len)"

definition responsive :: "(qspi_event list \<Rightarrow> qspi_event \<Rightarrow> qspi_reply) \<Rightarrow> nat \<Rightarrow> bool" where
  "responsive dev k = (commands_ok dev k \<and> writes_ok dev)"

text \<open>
  The events of a successful \<^verbatim>\<open>_set_write_enable\<close> that starts at history \<open>tr\<close>: the
  write-enable command, the busy poll to ready, and the read of status register 1
  that checks the latch.
\<close>

definition write_enable_events ::
  "(qspi_event list \<Rightarrow> qspi_event \<Rightarrow> qspi_reply) \<Rightarrow> nat \<Rightarrow> qspi_event list \<Rightarrow> qspi_event list" where
  "write_enable_events dev k tr =
     Command_transfer QSPIF_WREN 0xFFFFFFFF [] 0
       # poll_to_ready dev k (tr @ [Command_transfer QSPIF_WREN 0xFFFFFFFF [] 0])
       @ [Command_transfer QSPIF_INST_RSR1 0xFFFFFFFF [] 1]"

text \<open>
  The page-boundary split as the specification words it: the first chunk is
  \<open>min(size, page_size - (addr % page_size))\<close>, the chunks after it are full pages, the
  last one possibly a remainder. A chunk is its address and its length.
\<close>

function full_pages :: "nat \<Rightarrow> nat \<Rightarrow> nat \<Rightarrow> (nat \<times> nat) list" where
  "full_pages page addr n =
     (if n = 0 \<or> page = 0 then []
      else (addr, min n page) # full_pages page (addr + min n page) (n - min n page))"
  by pat_completeness auto

termination
  by (relation "measure (\<lambda>(page, addr, n). n)") auto

declare full_pages.simps [simp del]

definition page_split :: "nat \<Rightarrow> nat \<Rightarrow> nat \<Rightarrow> (nat \<times> nat) list" where
  "page_split page addr n =
     (if n = 0 then []
      else (addr, min n (page - addr mod page))
           # full_pages page (addr + min n (page - addr mod page))
               (n - min n (page - addr mod page)))"

text \<open>
  The split as the loop of \<^verbatim>\<open>program\<close> computes it, on natural numbers: every round
  takes \<open>min(size, page_size - (addr % page_size))\<close>.
\<close>

function page_chunks :: "nat \<Rightarrow> nat \<Rightarrow> nat \<Rightarrow> (nat \<times> nat) list" where
  "page_chunks page addr n =
     (if n = 0 \<or> page = 0 then []
      else (addr, min n (page - addr mod page))
           # page_chunks page (addr + min n (page - addr mod page))
               (n - min n (page - addr mod page)))"
  by pat_completeness auto

termination
proof (relation "measure (\<lambda>(page, addr, n). n)")
  show "wf (measure (\<lambda>(page, addr, n). n))" by simp
next
  fix page addr n :: nat
  assume "\<not> (n = 0 \<or> page = 0)"
  then have "0 < n" "addr mod page < page" by simp_all
  then have "0 < min n (page - addr mod page)" by simp
  with \<open>0 < n\<close>
  show "((page, addr + min n (page - addr mod page), n - min n (page - addr mod page)),
         (page, addr, n)) \<in> measure (\<lambda>(page, addr, n). n)"
    by simp
qed

declare page_chunks.simps [simp del]

text \<open>
  The events of one chunk of a successful \<^verbatim>\<open>program\<close> that comes to the chunk at
  history \<open>tr\<close>: write enable, the program command carrying the chunk's bytes of the
  buffer (\<open>base\<close> is the address of the buffer's first byte), and the busy poll to
  ready.
\<close>

definition program_chunk_events ::
  "(qspi_event list \<Rightarrow> qspi_event \<Rightarrow> qspi_reply) \<Rightarrow> nat \<Rightarrow> qspi_inst_t \<Rightarrow> uint8_t list \<Rightarrow> nat
     \<Rightarrow> qspi_event list \<Rightarrow> nat \<times> nat \<Rightarrow> qspi_event list" where
  "program_chunk_events dev k inst buffer base tr c =
     write_enable_events dev k tr
     @ [Write inst (of_nat (fst c)) (take (snd c) (drop (fst c - base) buffer)) (of_nat (snd c))]
     @ poll_to_ready dev k
         (tr @ write_enable_events dev k tr
          @ [Write inst (of_nat (fst c)) (take (snd c) (drop (fst c - base) buffer))
               (of_nat (snd c))])"

text \<open>The events of a list of chunks, one chunk after the other.\<close>

fun program_events ::
  "(qspi_event list \<Rightarrow> qspi_event \<Rightarrow> qspi_reply) \<Rightarrow> nat \<Rightarrow> qspi_inst_t \<Rightarrow> uint8_t list \<Rightarrow> nat
     \<Rightarrow> qspi_event list \<Rightarrow> (nat \<times> nat) list \<Rightarrow> qspi_event list" where
  "program_events dev k inst buffer base tr [] = []"
| "program_events dev k inst buffer base tr (c # cs) =
     program_chunk_events dev k inst buffer base tr c
     @ program_events dev k inst buffer base
         (tr @ program_chunk_events dev k inst buffer base tr c) cs"

text \<open>The program commands of a trace: address and length, in order.\<close>

definition program_commands :: "qspi_event list \<Rightarrow> (uint32_t \<times> uint32_t) list" where
  "program_commands tr =
     concat (map (\<lambda>ev. case ev of Write inst addr data len \<Rightarrow> [(addr, len)] | _ \<Rightarrow> []) tr)"

text \<open>
  A flash that accepts every command and reports 0 bytes written for every write.
\<close>

definition short_write_flash :: "qspi_event list \<Rightarrow> qspi_event \<Rightarrow> qspi_reply" where
  "short_write_flash tr ev =
     (case ev of
        Write inst addr data len \<Rightarrow> (QSPI_STATUS_OK, [], 0)
      | _ \<Rightarrow> ideal_flash tr ev)"

definition short_write_part :: QSPIFBlockDevice where
  "short_write_part = mixed_erase_part \<lparr> qspi := \<lparr> device = short_write_flash, trace = [] \<rparr> \<rparr>"

text \<open>
  A flash that takes time over a write: the first read of a register after a write
  returns \<open>0x03\<close> (write in progress), every other read \<open>0x02\<close>. Sleeps do not
  count as events in between.
\<close>

definition write_pending :: "qspi_event list \<Rightarrow> bool" where
  "write_pending tr =
     (case filter (\<lambda>ev. case ev of Sleep_for ms \<Rightarrow> False | _ \<Rightarrow> True) (rev tr) of
        Write inst addr data len # _ \<Rightarrow> True
      | _ \<Rightarrow> False)"

definition settling_flash :: "qspi_event list \<Rightarrow> qspi_event \<Rightarrow> qspi_reply" where
  "settling_flash tr ev =
     (case ev of
        Command_transfer inst addr tx n \<Rightarrow>
          (QSPI_STATUS_OK, replicate n (if write_pending tr then 0x03 else 0x02), 0)
      | _ \<Rightarrow> ideal_flash tr ev)"

definition settling_part :: QSPIFBlockDevice where
  "settling_part = mixed_erase_part \<lparr> qspi := \<lparr> device = settling_flash, trace = [] \<rparr> \<rparr>"

text \<open>
  A flash that serves the discovery address space from a list of bytes and behaves as
  the ideal flash otherwise.
\<close>

definition sfdp_flash :: "uint8_t list \<Rightarrow> qspi_event list \<Rightarrow> qspi_event \<Rightarrow> qspi_reply" where
  "sfdp_flash contents tr ev =
     (case ev of
        Read inst addr n \<Rightarrow> (QSPI_STATUS_OK, take n (drop (unat addr) contents), of_nat n)
      | _ \<Rightarrow> ideal_flash tr ev)"

text \<open>
  A discovery header announcing two parameter headers: the basic table (16 words at
  \<open>0x30\<close>) and a second table of 2 words at \<open>0x80\<close> whose kind is \<open>kind\<close> in
  byte 0 and \<open>0xFF\<close> in byte 7.
\<close>

definition sfdp_headers_image :: "uint8_t \<Rightarrow> uint8_t list" where
  "sfdp_headers_image kind =
     [0x53, 0x46, 0x44, 0x50, 0x06, 0x01, 0x01, 0xFF,
      0x00, 0x06, 0x01, 0x10, 0x30, 0x00, 0x00, 0xFF,
      kind, 0x00, 0x01, 0x02, 0x80, 0x00, 0x00, 0xFF]"

definition sfdp_part :: "uint8_t list \<Rightarrow> QSPIFBlockDevice" where
  "sfdp_part contents = mixed_erase_part \<lparr> qspi := \<lparr> device = sfdp_flash contents, trace = [] \<rparr> \<rparr>"

definition no_tables :: sfdp_tables where
  "no_tables = \<lparr> basic_table_addr = 0, basic_table_size = 0,
                  sector_map_table_addr = 0, sector_map_table_size = 0 \<rparr>"

text \<open>
  A sector map table: first word with the bytes \<open>b0\<close>, \<open>b1\<close> and a region count
  of one, then one region of 16 MiB with erase type 1.
\<close>

definition sector_map_image :: "uint8_t \<Rightarrow> uint8_t \<Rightarrow> uint8_t list" where
  "sector_map_image b0 b1 = [b0, b1, 0x00, 0xFF, 0x01, 0xFF, 0xFF, 0x00]"

text \<open>
  The size of erase slot \<open>i\<close> of the basic table: 2 to the power of byte
  \<open>28 + 2 i\<close>, on 32 bits.
\<close>

definition erase_slot_size :: "(int \<Rightarrow> uint8_t) \<Rightarrow> int \<Rightarrow> uint32_t" where
  "erase_slot_size t i = 2 ^ unat (t (28 + 2 * i))"

text \<open>
  The effect of one slot of size \<open>p\<close> on the minimum common erase size \<open>m\<close>, and on
  the bitfield \<open>b\<close> of region 0.
\<close>

definition min_common_step :: "uint32_t \<Rightarrow> uint32_t \<Rightarrow> uint32_t" where
  "min_common_step p m = (if 1 < p \<and> (p < m \<or> m = 0) then p else m)"

definition mark_slot :: "uint32_t \<Rightarrow> uint8_t \<Rightarrow> uint8_t \<Rightarrow> uint8_t" where
  "mark_slot p bf b = (if 1 < p then b OR bf else b)"

text \<open>
  A basic parameter table with the given eight bytes at offsets 28 to 35 (four slots of
  size exponent and instruction), and the driver object as \<^verbatim>\<open>init\<close> leaves it before
  the erase types are decoded.
\<close>

definition basic_table_with_erase_types :: "uint8_t list \<Rightarrow> int \<Rightarrow> uint8_t" where
  "basic_table_with_erase_types slots = arr_of 0xFF ([0xE5, 0x20] @ replicate 26 0xFF @ slots)"

definition undiscovered_part :: QSPIFBlockDevice where
  "undiscovered_part =
     mixed_erase_part
       \<lparr> region_erase_types_bitfield := arr_of 0 [0x00],
         min_common_erase_size := 0,
         erase_type_inst_arr := arr_of 0 [],
         erase_type_size_arr := arr_of 0 [] \<rparr>"

section \<open>Properties\<close>

text \<open>
  C1. The claim: on contiguous regions covering the device, the lookup returns the
  region that contains the address for every address below the device size, and -1 for
  every address at or above it. On the two-region part the lookup returns -1 for
  address 0, which lies in region 0, and returns region 1 for address \<open>0x2000\<close>, the
  device size.
\<close>

theorem find_addr_region_two_regions:
  "utils_find_addr_region two_region_part 0 = -1
   \<and> utils_find_addr_region two_region_part 0x2000 = 1
   \<and> utils_find_addr_region two_region_part 0x1000 = 1"
  by code_simp

text \<open>
  C9. The claim: the erase command carries the address with only its low 12 bits
  cleared. On the part with 4-byte addresses, the erase of the sector at
  \<open>0x01000000\<close> is sent to the transport with address 0: the mask \<open>0x00FFF000\<close>
  clears bits 24 to 31 as well.
\<close>

theorem send_erase_command_drops_high_byte:
  "map_option (\<lambda>(status, st). (status, trace (qspi st)))
     (qspi_send_erase_command 0x20 0x01000000 0x1000 four_byte_part)
   = Some (QSPI_STATUS_OK, [Command_transfer 0x20 0 [] 0])"
  by code_simp

text \<open>
  C10. A program of length zero returns ok and leaves the driver object, with the
  trace of its transport, as it was: no write enable, no program command, no busy poll.
\<close>

theorem program_zero_length:
  "program st buffer addr 0 = Some (QSPIF_BD_ERROR_OK, st)"
  by (simp add: program_def program_loop.simps)

lemma sint_minus_one_cases:
  fixes r :: int32_t
  shows "sint r = - 2147483648 \<Longrightarrow> sint (r - 1) = 2147483647"
    and "sint r \<noteq> - 2147483648 \<Longrightarrow> sint (r - 1) = sint r - 1"
proof -
  have e: "sint (r - 1) = signed_take_bit 31 (sint r - 1)"
    by (simp add: sint_word_ariths)
  have lo: "- 2147483648 \<le> sint r" using sint_ge [of r] by simp
  have hi: "sint r < 2147483648" using sint_lt [of r] by simp
  show "sint (r - 1) = 2147483647" if "sint r = - 2147483648"
    using e that by (simp add: signed_take_bit_eq_take_bit_shift mask_eq_exp_minus_1)
  show "sint (r - 1) = sint r - 1" if "sint r \<noteq> - 2147483648"
  proof -
    have "- (2 ^ 31) \<le> sint r - 1" "sint r - 1 < 2 ^ 31" using that lo hi by simp_all
    then have "signed_take_bit 31 (sint r - 1) = sint r - 1"
      by (intro signed_take_bit_int_eq_self)
    with e show ?thesis by simp
  qed
qed

lemma ucast_no_address: "(ucast QSPI_NO_ADDRESS_COMMAND :: uint32_t) = 0xFFFFFFFF"
  unfolding QSPI_NO_ADDRESS_COMMAND_def by code_simp

lemma poll_once:
  assumes "fourbyte_msb_reg_write_inst st = QSPI_NO_INST"
  shows "qspi_send_general_command QSPIF_INST_RSR1 QSPI_NO_ADDRESS_COMMAND [] (Suc 0) (sleep_for (Suc 0) st)
     = Some (fst (device (qspi st) (trace (qspi st) @ [Sleep_for (Suc 0)]) (Command_transfer QSPIF_INST_RSR1 0xFFFFFFFF [] (Suc 0))),
             fst (snd (device (qspi st) (trace (qspi st) @ [Sleep_for 1]) (Command_transfer QSPIF_INST_RSR1 0xFFFFFFFF [] 1))),
             with_trace st poll_round)"
  using assms
  by (simp add: qspi_send_general_command_def qspi_update_4byte_ext_addr_reg_def sleep_for_def
      transact_def ucast_no_address with_trace_def poll_round_def split: prod.splits)


lemma with_trace_simps [simp]:
  "device (qspi (with_trace st evs)) = device (qspi st)"
  "trace (qspi (with_trace st evs)) = trace (qspi st) @ evs"
  "fourbyte_msb_reg_write_inst (with_trace st evs) = fourbyte_msb_reg_write_inst st"
  "with_trace (with_trace st evs) evs' = with_trace st (evs @ evs')"
  by (simp_all add: with_trace_def)

lemma busy_flash_status [simp]:
  "busy_flash tr (Command_transfer inst addr tx (Suc 0)) = (QSPI_STATUS_OK, [0x03], 0)"
  by (simp add: busy_flash_def)

lemma busy_poll_rounds:
  assumes "n = nat (sint r + 2147483648)" and "sint r \<le> 10000"
    and "device (qspi st) = busy_flash" and "fourbyte_msb_reg_write_inst st = QSPI_NO_INST"
  shows "is_mem_ready_loop r st
         = Some (0x03, with_trace st (concat (replicate (Suc n) poll_round)))"
  using assms
proof (induction n arbitrary: r st)
  case 0
  have lo: "- 2147483648 \<le> sint r" using sint_ge [of r] by simp
  with 0 have "sint r = - 2147483648" by simp
  then have "sint (r - 1) = 2147483647" by (rule sint_minus_one_cases)
  then show ?case
    using 0 by (subst is_mem_ready_loop.simps)
      (simp add: poll_once rx_byte_def QSPIF_STATUS_BIT_WIP_def IS_MEM_READY_MAX_RETRIES_def)
next
  case (Suc n)
  then have ne: "sint r \<noteq> - 2147483648" by simp
  then have m: "sint (r - 1) = sint r - 1" by (rule sint_minus_one_cases)
  have ih: "is_mem_ready_loop (r - 1) (with_trace st poll_round)
      = Some (3, with_trace (with_trace st poll_round) (concat (replicate (Suc n) poll_round)))"
    using Suc.prems m by (intro Suc.IH) simp_all
  show ?case
    using Suc.prems m ih by (subst is_mem_ready_loop.simps)
      (simp add: poll_once rx_byte_def QSPIF_STATUS_BIT_WIP_def IS_MEM_READY_MAX_RETRIES_def)
qed

text \<open>
  C8. The claim: the busy poll reads the status register at most 10 000 times and then
  reports not-ready. On a flash whose write-in-progress bit never clears, the poll
  makes 2 147 483 649 rounds (sleep and status read) before it reports not-ready: the
  counter is decremented from 0, so \<^verbatim>\<open>retries < IS_MEM_READY_MAX_RETRIES\<close> holds until
  the 32-bit counter wraps around.
\<close>

theorem is_mem_ready_polls_past_the_cap:
  "is_mem_ready busy_part
   = Some (False, with_trace busy_part (concat (replicate 2147483649 poll_round)))"
proof -
  have "is_mem_ready_loop 0 busy_part
        = Some (0x03, with_trace busy_part (concat (replicate (Suc 2147483648) poll_round)))"
    by (rule busy_poll_rounds) (simp_all add: busy_part_def mixed_erase_part_def)
  then show ?thesis
    by (simp add: is_mem_ready_def QSPIF_STATUS_BIT_WIP_def)
qed

lemma and_not_absorb:
  fixes b :: uint8_t
  shows "b AND m = 0 \<Longrightarrow> b AND NOT m = b"
  by (auto simp: bit_eq_iff bit_and_iff bit_not_iff)

lemma mask_simps:
  fixes b :: uint8_t
  shows "(b AND - 9) AND 4 = b AND 4" "(b AND - 9) AND 2 = b AND 2" "(b AND - 9) AND 1 = b AND 1"
   "(b AND - 5) AND 2 = b AND 2" "(b AND - 5) AND 1 = b AND 1" "(b AND - 3) AND 1 = b AND 1"
   "(b AND - 13) AND 2 = b AND 2"  "(b AND - 13) AND 1 = b AND 1"
   "(b AND - 11) AND 1 = b AND 1" "(b AND - 7) AND 1 = b AND 1"
   "(b AND - 15) AND 1 = b AND 1"
   "(b AND - 9) AND - 5 = b AND - 13" "(b AND - 9) AND - 3 = b AND - 11" "(b AND - 5) AND - 3 = b AND - 7"
   "(b AND - 13) AND - 3 = b AND - 15" "(b AND - 15) AND - 2 = b AND - 16"
   "(b AND - 13) AND - 2 = b AND - 14"  "(b AND - 11) AND - 2 = b AND - 12"  "(b AND - 7) AND - 2 = b AND - 8"
   "(b AND - 9) AND - 2 = b AND - 10" "(b AND - 5) AND - 2 = b AND - 6" "(b AND - 3) AND - 2 = b AND - 4"
  by (simp_all add: and.assoc)


lemma loop_bottom:
  "utils_iterate_next_largest_erase_type_loop st bf sz off bnd m (- 1) l = (l, bf)"
  by (simp add: utils_iterate_next_largest_erase_type_loop.simps)


lemma loop_step:
  assumes "0 \<le> i"
  shows "utils_iterate_next_largest_erase_type_loop st bf sz off bnd m i l =
     (if bf AND m \<noteq> 0 \<and> erase_type_fits st sz off bnd i then (i, bf)
      else utils_iterate_next_largest_erase_type_loop st (bf AND NOT m) sz off bnd
             (drop_bit 1 m) (i - 1) (if bf AND m \<noteq> 0 then i else l))"
  using assms
  by (subst utils_iterate_next_largest_erase_type_loop.simps)
    (auto simp: erase_type_fits_def and_not_absorb)

lemma iterate_closed_form:
  "utils_iterate_next_largest_erase_type st bf sz off bnd
   = largest_fitting_erase_type st bf sz off bnd"
  unfolding utils_iterate_next_largest_erase_type_def largest_fitting_erase_type_def
  by (simp add: loop_step loop_bottom mask_simps drop_bit_eq_div)

lemma erase_chunk_min:
  assumes ts: "type_size \<noteq> 0" and small: "unat type_size \<le> 2147483648" and sz: "0 < sint sz"
  shows "unat (erase_chunk type_size addr sz)
         = min (unat sz) (unat type_size - unat addr mod unat type_size)"
proof -
  define T where "T = unat type_size"
  define S where "S = unat sz"
  define ofs where "ofs = unat addr mod T"
  define w where "w = (ucast (addr mod ucast type_size) :: 32 word)"
  have T: "0 < T" "T \<le> 2147483648"
    using ts small by (simp_all add: T_def unat_gt_0)
  have "uint sz = sint sz" using sz sint_eq_uint(1) [of sz] by simp
  moreover have "sint sz < 2147483648" using sint_lt [of sz] by simp
  ultimately have "uint sz < 2147483648" by simp
  then have "int (unat sz) < 2147483648" unfolding uint_nat .
  then have S: "S < 2147483648" unfolding S_def by linarith
  have o: "ofs < T" using T by (simp add: ofs_def)
  have o32: "unat w = ofs"
    using unat_offset(1) [OF ts] by (simp add: ofs_def T_def w_def)
  have "ofs + S < 4294967296" using o T S by linarith
  then have cond: "(w + sz < type_size) = (ofs + S < T)"
    by (simp only: word_less_nat_alt unat_word_ariths o32 S_def T_def) simp
  have ec: "erase_chunk type_size addr sz = (if w + sz < type_size then sz else type_size - w)"
    by (simp only: erase_chunk_def Let_def w_def)
  have le: "w \<le> type_size"
    using o o32 by (simp add: word_le_nat_alt T_def)
  have u: "unat (type_size - w) = T - ofs"
    using unat_sub [OF le] o32 by (simp add: T_def)
  show ?thesis
    using ec cond u o unfolding S_def [symmetric] T_def [symmetric] ofs_def [symmetric]
    by (cases "ofs + S < T") (auto simp: S_def min_def)
qed

text \<open>
  C2, as the claim states it: the three erase commands would be \<open>0xD8\<close> at
  \<open>0x8000\<close>, \<open>0x52\<close> at \<open>0x18000\<close> and \<open>0x20\<close> at \<open>0x20000\<close>. The driver
  does not issue this sequence.
\<close>

theorem mixed_erase_claimed_sequence_refuted:
  "map_option (\<lambda>(rc, st). erase_commands (trace (qspi st)))
     (erase mixed_erase_part 0x8000 0x11000)
   \<noteq> Some [(0xD8, 0x8000), (0x52, 0x18000), (0x20, 0x20000)]"
  by code_simp

text \<open>
  C2, amended. With the erase types 4 KiB at \<open>0x20\<close>, 32 KiB at \<open>0x52\<close> and 64 KiB
  at \<open>0xD8\<close> in a single region, \<open>erase(0x8000, 0x11000)\<close> returns ok and issues
  exactly three erase commands, in order: \<open>0xD8\<close> at \<open>0x8000\<close>, \<open>0x52\<close> at
  \<open>0x10000\<close>, \<open>0x20\<close> at \<open>0x18000\<close>. Each step chooses the largest erase type of
  the region whose size is below the remaining size and below the distance to the
  region's high boundary (the smallest type of the region when none is), and advances
  the address and the size by the distance from the address to the next multiple of
  that type's size, or by the remaining size when that is smaller.
\<close>

theorem mixed_erase_decomposition:
  "map_option (\<lambda>(rc, st). (rc, erase_commands (trace (qspi st))))
     (erase mixed_erase_part 0x8000 0x11000)
   = Some (QSPIF_BD_ERROR_OK, [(0xD8, 0x8000), (0x52, 0x10000), (0x20, 0x18000)])
   \<and> utils_iterate_next_largest_erase_type st bf sz off bnd
       = largest_fitting_erase_type st bf sz off bnd
   \<and> (type_size \<noteq> 0 \<and> unat type_size \<le> 2147483648 \<and> 0 < sint sz'
        \<longrightarrow> unat (erase_chunk type_size addr sz')
            = min (unat sz') (unat type_size - unat addr mod unat type_size))"
proof (intro conjI impI)
  show "map_option (\<lambda>(rc, st). (rc, erase_commands (trace (qspi st))))
     (erase mixed_erase_part 0x8000 0x11000)
   = Some (QSPIF_BD_ERROR_OK, [(0xD8, 0x8000), (0x52, 0x10000), (0x20, 0x18000)])"
    by code_simp
  show "utils_iterate_next_largest_erase_type st bf sz off bnd
       = largest_fitting_erase_type st bf sz off bnd"
    by (rule iterate_closed_form)
  show "unat (erase_chunk type_size addr sz')
            = min (unat sz') (unat type_size - unat addr mod unat type_size)"
    if "type_size \<noteq> 0 \<and> unat type_size \<le> 2147483648 \<and> 0 < sint sz'"
    using that by (intro erase_chunk_min) simp_all
qed

text \<open>
  The first step of the scenario: 64 KiB is the largest type below the remaining
  \<open>0x11000\<close> bytes, and the step advances by \<open>0x8000\<close>, the distance from \<open>0x8000\<close>
  to the next multiple of 64 KiB.
\<close>

theorem mixed_erase_decomposition_witness:
  "(0x10000 :: uint32_t) \<noteq> 0 \<and> unat (0x10000 :: uint32_t) \<le> 2147483648
   \<and> 0 < sint (0x11000 :: int32_t)
   \<and> utils_iterate_next_largest_erase_type mixed_erase_part 0x07 0x11000 0x8000 0xFFFFFF
       = (2, 0x07)
   \<and> unat (erase_chunk 0x10000 0x8000 0x11000) = 0x8000"
  using mixed_erase_decomposition
    [of mixed_erase_part "0x07" "0x11000" "0x8000" "0xFFFFFF" "0x10000" "0x11000" "0x8000"]
  by (simp add: largest_fitting_erase_type_def erase_type_fits_def mixed_erase_part_def arr_of_def)

text \<open>
  The checks of \<^verbatim>\<open>erase\<close>, in the order of the source. Each returns
  invalid-erase-params with the driver object, and so the trace of the transport, as it
  was. The range check is on the 64-bit sum; it rejects every range that ends beyond
  the device when the sum does not wrap.
\<close>

lemma erase_checks:
  "addr + in_size > device_size_bytes st
     \<Longrightarrow> erase st addr in_size = Some (QSPIF_BD_ERROR_INVALID_ERASE_PARAMS, st)"
  "\<not> addr + in_size > device_size_bytes st \<Longrightarrow> get_erase_size st addr \<noteq> 0
     \<Longrightarrow> addr mod get_erase_size st addr \<noteq> 0
     \<Longrightarrow> erase st addr in_size = Some (QSPIF_BD_ERROR_INVALID_ERASE_PARAMS, st)"
  "\<not> addr + in_size > device_size_bytes st \<Longrightarrow> get_erase_size st addr \<noteq> 0
     \<Longrightarrow> addr mod get_erase_size st addr = 0
     \<Longrightarrow> get_erase_size st (addr + in_size - 1) \<noteq> 0
     \<Longrightarrow> (addr + in_size) mod get_erase_size st (addr + in_size - 1) \<noteq> 0
     \<Longrightarrow> erase st addr in_size = Some (QSPIF_BD_ERROR_INVALID_ERASE_PARAMS, st)"
  by (simp_all add: erase_def Let_def)

lemma erase_rejects_range_beyond_device:
  assumes "unat addr + unat in_size < 2 ^ 64"
    and "unat (device_size_bytes st) < unat addr + unat in_size"
  shows "erase st addr in_size = Some (QSPIF_BD_ERROR_INVALID_ERASE_PARAMS, st)"
proof -
  have "unat (addr + in_size) = unat addr + unat in_size"
    using assms(1) by (simp add: unat_add_lem [THEN iffD1])
  with assms(2) have "addr + in_size > device_size_bytes st"
    by (simp add: word_less_nat_alt)
  then show ?thesis by (rule erase_checks(1))
qed

text \<open>
  C3. The claim: an erase whose range ends beyond the device, or whose start or end is
  not aligned to the erase granularity, returns invalid-erase-params and issues no
  erase command. The misaligned \<open>erase(0x1001, 4096)\<close> on the 4 KiB-granularity part
  does. On the same part, \<open>erase(0x1000, 0xFFFFFFFFFFFFF000)\<close> ends at \<open>2^64\<close>, far
  beyond the device: the sum \<^verbatim>\<open>addr + in_size\<close> wraps to 0 on 64 bits, the three checks
  pass, the size truncated to \<^verbatim>\<open>int\<close> is negative, and the driver returns ok. On the
  32 MiB part with 4-byte addresses, \<open>erase(0xFFFFFFFFFFFFF000, 0x1000)\<close> passes the
  checks in the same way and the driver returns ok after sending the 4 KiB erase
  command \<open>0x20\<close> with address \<open>0xFFF000\<close>.
\<close>

theorem erase_accepts_wrapped_range:
  "map_option (\<lambda>(rc, st). (rc, trace (qspi st)))
     (erase mixed_erase_part 0x1001 4096)
   = Some (QSPIF_BD_ERROR_INVALID_ERASE_PARAMS, [])
   \<and> map_option (\<lambda>(rc, st). (rc, trace (qspi st)))
     (erase mixed_erase_part 0x1000 0xFFFFFFFFFFFFF000)
   = Some (QSPIF_BD_ERROR_OK, [])
   \<and> map_option (\<lambda>(rc, st). (rc, erase_commands (trace (qspi st))))
     (erase four_byte_part 0xFFFFFFFFFFFFF000 0x1000)
   = Some (QSPIF_BD_ERROR_OK, [(0x20, 0xFFF000)])"
  by code_simp

lemma with_trace_fields [simp]:
  "page_size_bytes (with_trace st evs) = page_size_bytes st"
  "prog_instruction (with_trace st evs) = prog_instruction st"
  "address_size (with_trace st evs) = address_size st"
  "with_trace st [] = st"
  by (simp_all add: with_trace_def)

lemma send_general_ok:
  assumes "fourbyte_msb_reg_write_inst st = QSPI_NO_INST"
  shows "qspi_send_general_command inst QSPI_NO_ADDRESS_COMMAND tx n st
     = Some (fst (device (qspi st) (trace (qspi st)) (Command_transfer inst 0xFFFFFFFF tx n)),
             fst (snd (device (qspi st) (trace (qspi st)) (Command_transfer inst 0xFFFFFFFF tx n))),
             with_trace st [Command_transfer inst 0xFFFFFFFF tx n])"
  using assms
  by (simp add: qspi_send_general_command_def qspi_update_4byte_ext_addr_reg_def
      transact_def ucast_no_address with_trace_def split: prod.splits)

lemma writes_okD:
  assumes "writes_ok dev"
  shows "fst (dev tr (Write inst addr data len)) = QSPI_STATUS_OK"
    and "snd (snd (dev tr (Write inst addr data len))) = len"
  using assms unfolding writes_ok_def by blast+

lemma send_program_reply:
  assumes "fourbyte_msb_reg_write_inst st = QSPI_NO_INST"
    and "address_size st = QSPI_CFG_ADDR_SIZE_32 \<or> unat addr < 16777216"
  shows "qspi_send_program_command inst buffer addr c st
     = Some (fst (device (qspi st) (trace (qspi st)) (Write inst (ucast addr) (take (unat c) buffer) c)),
             snd (snd (device (qspi st) (trace (qspi st)) (Write inst (ucast addr) (take (unat c) buffer) c))),
             with_trace st [Write inst (ucast addr) (take (unat c) buffer) c])"
proof -
  have "\<not> (address_size st \<noteq> QSPI_CFG_ADDR_SIZE_32 \<and> addr \<noteq> QSPI_NO_ADDRESS_COMMAND
            \<and> addr \<ge> push_bit 24 1)"
    using assms(2) by (auto simp: word_le_nat_alt)
  then show ?thesis
    using assms(1)
    by (auto simp: qspi_send_program_command_def qspi_update_4byte_ext_addr_reg_def
      transact_def with_trace_def case_prod_beta)
qed

lemma send_program_responsive:
  assumes "writes_ok (device (qspi st))" and "fourbyte_msb_reg_write_inst st = QSPI_NO_INST"
    and "address_size st = QSPI_CFG_ADDR_SIZE_32 \<or> unat addr < 16777216"
  shows "qspi_send_program_command inst buffer addr c st
     = Some (QSPI_STATUS_OK, c, with_trace st [Write inst (ucast addr) (take (unat c) buffer) c])"
  using writes_okD [OF assms(1)] by (simp add: send_program_reply [OF assms(2,3)])

lemma split_zero [simp]:
  "page_chunks page addr 0 = []" "full_pages page addr 0 = []"
  by (simp_all add: page_chunks.simps full_pages.simps)

lemma page_chunks_aligned:
  "addr mod page = 0 \<or> n = 0 \<Longrightarrow> page_chunks page addr n = full_pages page addr n"
proof (induction page addr n rule: full_pages.induct)
  case (1 page addr n)
  show ?case
  proof (cases "n = 0 \<or> page = 0")
    case True
    then show ?thesis by (simp add: page_chunks.simps [of page addr n] full_pages.simps [of page addr n])
  next
    case False
    with 1(2) have al: "addr mod page = 0" by simp
    have "(addr + min n page) mod page = 0 \<or> n - min n page = 0"
      using al by (cases "n \<le> page") (simp_all add: min_def)
    with 1(1) False have "page_chunks page (addr + min n page) (n - min n page)
        = full_pages page (addr + min n page) (n - min n page)" by simp
    then show ?thesis
      using False al
      by (simp add: page_chunks.simps [of page addr n] full_pages.simps [of page addr n])
  qed
qed

lemma page_chunks_eq_page_split:
  assumes "0 < page"
  shows "page_chunks page addr n = page_split page addr n"
proof (cases "n = 0")
  case True
  then show ?thesis by (simp add: page_chunks.simps [of page addr n] page_split_def)
next
  case False
  define c where "c = min n (page - addr mod page)"
  have "addr mod page < page" using assms by simp
  then have "(addr + c) mod page = 0 \<or> n - c = 0"
  proof (cases "n \<le> page - addr mod page")
    case True
    then show ?thesis by (simp add: c_def)
  next
    case False
    then have "c = page - addr mod page" by (simp add: c_def)
    have "addr - addr mod page = page * (addr div page)"
      by (rule minus_mod_eq_mult_div)
    moreover have "addr mod page \<le> addr" by simp
    ultimately have "addr + c = page * (addr div page) + page"
      using \<open>addr mod page < page\<close> \<open>c = page - addr mod page\<close> by linarith
    then have "addr + c = page * (addr div page + 1)" by simp
    then have "(addr + c) mod page = 0" by (metis mod_mult_self1_is_0)
    then show ?thesis by simp
  qed
  from page_chunks_aligned [OF this] False assms show ?thesis
    by (simp add: page_chunks.simps [of page addr n] page_split_def c_def)
qed

lemma page_chunks_addr_ge:
  "c \<in> set (page_chunks page addr n) \<Longrightarrow> addr \<le> fst c"
proof (induction page addr n rule: page_chunks.induct)
  case (1 page addr n)
  then show ?case
    by (subst (asm) (2) page_chunks.simps) (auto split: if_splits)
qed

lemma program_chunk_min:
  assumes page: "page \<noteq> 0" and nowrap: "unat addr + unat sz < 2 ^ 64"
  shows "unat (program_chunk page addr sz)
         = min (unat sz) (unat page - unat addr mod unat page)"
proof -
  define P where "P = unat page"
  define S where "S = unat sz"
  define ofs where "ofs = unat addr mod P"
  define w where "w = (ucast (addr mod ucast page) :: 32 word)"
  have P: "0 < P" "P < 2 ^ 32"
    using page unsigned_less [of page, where 'a = nat] by (simp_all add: P_def unat_gt_0)
  have o: "ofs < P" using P by (simp add: ofs_def)
  have "ofs \<le> unat addr" by (simp add: ofs_def)
  with nowrap have nw: "ofs + S < 2 ^ 64" by (simp add: S_def)
  have o32: "unat w = ofs"
    using unat_offset(1) [OF page] by (simp add: ofs_def P_def w_def)
  have o64: "unat (ucast w :: 64 word) = ofs"
    using o32 o P by (simp add: unsigned_ucast_eq take_bit_eq_mod)
  have up: "unat (ucast page :: 64 word) = P"
    using P by (simp add: unsigned_ucast_eq take_bit_eq_mod P_def)
  have cond: "((ucast w :: 64 word) + sz < ucast page) = (ofs + S < P)"
    using nw by (simp only: word_less_nat_alt unat_word_ariths o64 up S_def) simp
  have pc: "program_chunk page addr sz
      = (if (ucast w :: 64 word) + sz < ucast page then ucast sz else page - w)"
    by (simp only: program_chunk_def Let_def w_def)
  have le: "w \<le> page"
    using o o32 by (simp add: word_le_nat_alt P_def)
  have u: "unat (page - w) = P - ofs"
    using unat_sub [OF le] o32 by (simp add: P_def)
  show ?thesis
  proof (cases "ofs + S < P")
    case True
    then have "S < 2 ^ 32" using P by simp
    then have "unat (ucast sz :: 32 word) = S"
      by (simp add: unsigned_ucast_eq take_bit_eq_mod S_def)
    with True pc cond show ?thesis
      unfolding P_def [symmetric] S_def [symmetric] ofs_def [symmetric] by (simp add: min_def)
  next
    case False
    with pc cond u o show ?thesis
      unfolding P_def [symmetric] S_def [symmetric] ofs_def [symmetric] by (auto simp: min_def)
  qed
qed

lemma page_split_example: "page_split 256 496 32 = [(496, 16), (512, 16)]"
  by (simp add: page_split_def full_pages.simps)

text \<open>
  The busy poll on a flash that may be busy: when some round within the first \<open>k\<close>
  reads the flash ready, and the counter leaves room for \<open>k\<close> rounds, the poll makes
  one round for each read that shows the write in progress and stops at the round that
  reads ready, with that status byte.
\<close>

lemma polls_simps [simp]:
  "polls 0 = []" "polls (Suc n) = poll_round @ polls n"
  by (simp_all add: polls_def)

lemma poll_loop_to_ready:
  assumes "fourbyte_msb_reg_write_inst st = QSPI_NO_INST"
    and "\<exists>n<k. \<not> write_in_progress (device (qspi st)) (trace (qspi st) @ polls n)"
    and "int k \<le> sint r + 2147483649" and "sint r \<le> 10000"
  shows "\<exists>b. b AND QSPIF_STATUS_BIT_WIP = 0 \<and> is_mem_ready_loop r st
       = Some (b, with_trace st (poll_to_ready (device (qspi st)) k (trace (qspi st))))"
  using assms
proof (induction k arbitrary: r st)
  case 0
  then show ?case by simp
next
  case (Suc k)
  let ?dev = "device (qspi st)" and ?tr = "trace (qspi st)"
  show ?case
  proof (cases "write_in_progress ?dev ?tr")
    case False
    then show ?thesis
      by (subst is_mem_ready_loop.simps)
        (simp add: poll_once [OF Suc.prems(1)] write_in_progress_def poll_to_ready_def)
  next
    case True
    from Suc.prems(2) obtain n where n: "n < Suc k" "\<not> write_in_progress ?dev (?tr @ polls n)"
      by blast
    with True obtain m where m: "n = Suc m" by (cases n) simp_all
    with n have ex: "\<exists>n<k. \<not> write_in_progress (device (qspi (with_trace st poll_round)))
        (trace (qspi (with_trace st poll_round)) @ polls n)"
      by auto
    from n m have "0 < k" by simp
    with Suc.prems(3) have "sint r \<noteq> - 2147483648" by simp
    then have d: "sint (r - 1) = sint r - 1" by (rule sint_minus_one_cases)
    have "\<exists>b. b AND QSPIF_STATUS_BIT_WIP = 0 \<and> is_mem_ready_loop (r - 1) (with_trace st poll_round)
       = Some (b, with_trace (with_trace st poll_round)
           (poll_to_ready (device (qspi (with_trace st poll_round))) k
              (trace (qspi (with_trace st poll_round)))))"
      using Suc.prems d ex by (intro Suc.IH) simp_all
    then obtain b where b: "b AND QSPIF_STATUS_BIT_WIP = 0"
      "is_mem_ready_loop (r - 1) (with_trace st poll_round)
       = Some (b, with_trace st (poll_round @ poll_to_ready ?dev k (?tr @ poll_round)))"
      by auto
    show ?thesis
      using True b d Suc.prems(4)
      by (subst is_mem_ready_loop.simps)
        (simp add: poll_once [OF Suc.prems(1)] write_in_progress_def poll_to_ready_def
          IS_MEM_READY_MAX_RETRIES_def)
  qed
qed

lemma is_mem_ready_to_ready:
  assumes "fourbyte_msb_reg_write_inst st = QSPI_NO_INST"
    and "\<exists>n<k. \<not> write_in_progress (device (qspi st)) (trace (qspi st) @ polls n)"
    and "k \<le> 2147483649"
  shows "is_mem_ready st
       = Some (True, with_trace st (poll_to_ready (device (qspi st)) k (trace (qspi st))))"
proof -
  from poll_loop_to_ready [OF assms(1,2), of 0] assms(3)
  obtain b where "b AND QSPIF_STATUS_BIT_WIP = 0" "is_mem_ready_loop 0 st
       = Some (b, with_trace st (poll_to_ready (device (qspi st)) k (trace (qspi st))))"
    by auto
  then show ?thesis by (simp add: is_mem_ready_def)
qed

lemma commands_okD:
  assumes "commands_ok dev k"
  shows "fst (dev tr (Command_transfer inst addr tx n)) = QSPI_STATUS_OK"
    and "\<exists>n<k. \<not> write_in_progress dev (tr @ polls n)"
    and "rx_byte 0 (fst (snd (dev (tr @ Command_transfer QSPIF_WREN 0xFFFFFFFF [] 0 # polls m)
                                 (Command_transfer QSPIF_INST_RSR1 0xFFFFFFFF [] 1))))
           AND QSPIF_STATUS_BIT_WEL \<noteq> 0"
  using assms unfolding commands_ok_def by blast+

lemma set_write_enable_to_ready:
  assumes ok: "commands_ok (device (qspi st)) k" and k: "k \<le> 2147483649"
    and no: "fourbyte_msb_reg_write_inst st = QSPI_NO_INST"
  shows "set_write_enable st
       = Some (0, with_trace st (write_enable_events (device (qspi st)) k (trace (qspi st))))"
proof -
  let ?dev = "device (qspi st)" and ?tr = "trace (qspi st)"
  let ?wren = "Command_transfer QSPIF_WREN 0xFFFFFFFF [] 0"
  define st1 where "st1 = with_trace st [?wren]"
  define st2 where "st2 = with_trace st1 (poll_to_ready ?dev k (?tr @ [?wren]))"
  have e1: "qspi_send_general_command QSPIF_WREN QSPI_NO_ADDRESS_COMMAND [] 0 st
      = Some (QSPI_STATUS_OK, fst (snd (?dev ?tr ?wren)), st1)"
    using commands_okD(1) [OF ok] by (simp add: send_general_ok [OF no] st1_def)
  have e2: "is_mem_ready st1 = Some (True, st2)"
  proof -
    have "\<exists>n<k. \<not> write_in_progress (device (qspi st1)) (trace (qspi st1) @ polls n)"
      using commands_okD(2) [OF ok, of "?tr @ [?wren]"] by (simp add: st1_def)
    moreover have "fourbyte_msb_reg_write_inst st1 = QSPI_NO_INST"
      using no by (simp add: st1_def)
    ultimately have "is_mem_ready st1
       = Some (True, with_trace st1 (poll_to_ready (device (qspi st1)) k (trace (qspi st1))))"
      using k by (intro is_mem_ready_to_ready)
    then show ?thesis by (simp add: st1_def st2_def)
  qed
  have e3: "qspi_send_general_command QSPIF_INST_RSR1 QSPI_NO_ADDRESS_COMMAND [] 1 st2
      = Some (QSPI_STATUS_OK,
          fst (snd (?dev (trace (qspi st2)) (Command_transfer QSPIF_INST_RSR1 0xFFFFFFFF [] 1))),
          with_trace st2 [Command_transfer QSPIF_INST_RSR1 0xFFFFFFFF [] 1])"
    using commands_okD(1) [OF ok] no
    by (subst send_general_ok) (simp_all add: st1_def st2_def)
  have latch: "rx_byte 0 (fst (snd (?dev (trace (qspi st2))
       (Command_transfer QSPIF_INST_RSR1 0xFFFFFFFF [] 1)))) AND QSPIF_STATUS_BIT_WEL \<noteq> 0"
    using commands_okD(3) [OF ok, of ?tr "Suc (busy_reads ?dev (?tr @ [?wren]) k)"]
    by (simp add: st2_def st1_def poll_to_ready_def del: polls_simps)
  show ?thesis
    using e1 e2 e3 latch
    by (simp add: set_write_enable_def write_enable_events_def st2_def st1_def)
qed


lemma program_events_rebase:
  assumes "\<forall>c\<in>set cs. base + d \<le> fst c"
  shows "program_events dev k inst (drop d buffer) (base + d) tr cs
         = program_events dev k inst buffer base tr cs"
  using assms
proof (induction cs arbitrary: tr)
  case Nil
  show ?case by simp
next
  case (Cons c cs)
  then have "base + d \<le> fst c" by simp
  then have "fst c - (base + d) + d = fst c - base" by simp
  then have "program_chunk_events dev k inst (drop d buffer) (base + d) tr c
      = program_chunk_events dev k inst buffer base tr c"
    by (simp add: program_chunk_events_def)
  with Cons show ?case by simp
qed

lemma program_loop_responsive:
  assumes "responsive (device (qspi st)) k" and "k \<le> 2147483649"
    and "fourbyte_msb_reg_write_inst st = QSPI_NO_INST"
    and "page_size_bytes st \<noteq> 0"
    and "(address_size st = QSPI_CFG_ADDR_SIZE_32 \<and> unat addr + unat sz < 2 ^ 64)
         \<or> unat addr + unat sz \<le> 16777216"
  shows "program_loop st buffer addr sz =
     Some (QSPIF_BD_ERROR_OK,
           with_trace st (program_events (device (qspi st)) k (prog_instruction st) buffer
             (unat addr) (trace (qspi st))
             (page_chunks (unat (page_size_bytes st)) (unat addr) (unat sz))))"
  using assms
proof (induction "unat sz" arbitrary: st buffer addr sz rule: less_induct)
  case less
  show ?case
  proof (cases "sz = 0")
    case True
    then show ?thesis by (simp add: program_loop.simps)
  next
    case False
    define page where "page = page_size_bytes st"
    define c where "c = program_chunk page addr sz"
    define A where "A = unat addr"
    define S where "S = unat sz"
    define P where "P = unat page"
    define inst where "inst = prog_instruction st"
    define dev where "dev = device (qspi st)"
    define tr where "tr = trace (qspi st)"
    have page: "page \<noteq> 0" using less.prems(4) by (simp add: page_def)
    have nowrap: "A + S < 2 ^ 64" using less.prems(5) by (auto simp: A_def S_def)
    have S: "0 < S" using False by (simp add: S_def unat_gt_0)
    have P: "0 < P" using page by (simp add: P_def unat_gt_0)
    have cn: "unat c = min S (P - A mod P)"
      unfolding c_def A_def S_def P_def
      using nowrap by (intro program_chunk_min [OF page]) (simp add: A_def S_def)
    have b: "0 < unat c" "unat c \<le> S"
      using program_chunk_bounds [OF page False, of addr] by (simp_all add: c_def S_def)
    have "unat c < 2 ^ 64"
      using unsigned_less [of c, where 'a = nat] by simp
    then have uc: "unat (ucast c :: bd_size_t) = unat c"
      by (simp add: unsigned_ucast_eq take_bit_eq_mod)
    have "A + unat c < 2 ^ 64" using nowrap b by simp
    then have a': "unat (addr + ucast c) = A + unat c"
      using uc by (simp add: unat_add_lem [THEN iffD1] A_def)
    have "(ucast c :: bd_size_t) \<le> sz" using uc b by (simp add: word_le_nat_alt S_def)
    from unat_sub [OF this] have s': "unat (sz - ucast c) = S - unat c"
      using uc by (simp add: S_def)
    define we where "we = write_enable_events dev k tr"
    define w where "w = Write inst (ucast addr) (take (unat c) buffer) c"
    define p where "p = poll_to_ready dev k (tr @ we @ [w])"
    define st1 where "st1 = with_trace st we"
    define st2 where "st2 = with_trace st1 [w]"
    define st3 where "st3 = with_trace st2 p"
    have ok: "commands_ok dev k" "writes_ok dev"
      using less.prems(1) by (simp_all add: responsive_def dev_def)
    have e1: "set_write_enable st = Some (0, st1)"
      unfolding st1_def we_def dev_def tr_def
      using ok(1) less.prems(2,3) by (intro set_write_enable_to_ready) (simp_all add: dev_def)
    have addr_ok: "address_size st = QSPI_CFG_ADDR_SIZE_32 \<or> unat addr < 16777216"
      using less.prems(5) S by (auto simp: S_def)
    have e2: "qspi_send_program_command (prog_instruction st1) buffer addr c st1
              = Some (QSPI_STATUS_OK, c, st2)"
      unfolding st2_def inst_def w_def using ok(2) less.prems(3) addr_ok
      by (simp add: st1_def send_program_responsive dev_def)
    have e3: "is_mem_ready st2 = Some (True, st3)"
    proof -
      have "\<exists>n<k. \<not> write_in_progress (device (qspi st2)) (trace (qspi st2) @ polls n)"
        using commands_okD(2) [OF ok(1), of "trace (qspi st2)"]
        by (simp add: st2_def st1_def dev_def)
      moreover have "fourbyte_msb_reg_write_inst st2 = QSPI_NO_INST"
        using less.prems(3) by (simp add: st2_def st1_def)
      ultimately have "is_mem_ready st2
         = Some (True, with_trace st2 (poll_to_ready (device (qspi st2)) k (trace (qspi st2))))"
        using less.prems(2) by (intro is_mem_ready_to_ready)
      then show ?thesis by (simp add: st3_def p_def st2_def st1_def dev_def tr_def)
    qed
    have step: "program_loop st buffer addr sz
        = program_loop st3 (drop (unat c) buffer) (addr + ucast c) (sz - ucast c)"
      using False page e1 e2 e3
      by (subst program_loop.simps) (simp add: c_def page_def word_greater_zero_iff)
    have "unat (sz - ucast c) < unat sz" using s' b S by (simp add: S_def)
    moreover have "responsive (device (qspi st3)) k"
      "fourbyte_msb_reg_write_inst st3 = QSPI_NO_INST" "page_size_bytes st3 \<noteq> 0"
      using less.prems by (simp_all add: st3_def st2_def st1_def)
    moreover have "(address_size st3 = QSPI_CFG_ADDR_SIZE_32
          \<and> unat (addr + ucast c) + unat (sz - ucast c) < 2 ^ 64)
         \<or> unat (addr + ucast c) + unat (sz - ucast c) \<le> 16777216"
      using less.prems(5) a' s' b by (auto simp: st3_def st2_def st1_def A_def S_def)
    ultimately have ih: "program_loop st3 (drop (unat c) buffer) (addr + ucast c) (sz - ucast c)
        = Some (QSPIF_BD_ERROR_OK,
           with_trace st3 (program_events dev k inst (drop (unat c) buffer) (A + unat c)
             (tr @ we @ [w] @ p)
             (page_chunks P (A + unat c) (S - unat c))))"
      using less.hyps [where sz = "sz - ucast c" and st = st3 and buffer = "drop (unat c) buffer"
          and addr = "addr + ucast c"] a' s' less.prems(2)
      by (simp add: st3_def st2_def st1_def inst_def P_def page_def dev_def tr_def)
    have rebase: "program_events dev k inst (drop (unat c) buffer) (A + unat c)
             (tr @ we @ [w] @ p) (page_chunks P (A + unat c) (S - unat c))
        = program_events dev k inst buffer A (tr @ we @ [w] @ p)
            (page_chunks P (A + unat c) (S - unat c))"
      by (rule program_events_rebase) (auto dest: page_chunks_addr_ge)
    have chunks: "page_chunks P A S = (A, unat c) # page_chunks P (A + unat c) (S - unat c)"
      using S P cn by (subst page_chunks.simps) simp
    have first: "program_chunk_events dev k inst buffer A tr (A, unat c) = we @ [w] @ p"
      by (simp add: program_chunk_events_def A_def we_def w_def p_def)
    show ?thesis
      unfolding step ih rebase
      by (simp add: chunks first st3_def st2_def st1_def A_def [symmetric] S_def [symmetric]
          P_def [symmetric] page_def [symmetric] inst_def [symmetric] dev_def [symmetric]
          tr_def [symmetric])
  qed
qed

lemma program_short_write:
  assumes "commands_ok (device (qspi st)) k" and "k \<le> 2147483649"
    and "fourbyte_msb_reg_write_inst st = QSPI_NO_INST"
    and "page_size_bytes st \<noteq> 0" and "sz \<noteq> 0"
    and "address_size st = QSPI_CFG_ADDR_SIZE_32 \<or> unat addr < 16777216"
    and "snd (snd (device (qspi st)
            (trace (qspi st) @ write_enable_events (device (qspi st)) k (trace (qspi st)))
            (Write (prog_instruction st) (ucast addr)
               (take (unat (program_chunk (page_size_bytes st) addr sz)) buffer)
               (program_chunk (page_size_bytes st) addr sz))))
         \<noteq> program_chunk (page_size_bytes st) addr sz"
  shows "program_loop st buffer addr sz =
     Some (QSPIF_BD_ERROR_DEVICE_ERROR,
           with_trace st (write_enable_events (device (qspi st)) k (trace (qspi st))
             @ [Write (prog_instruction st) (ucast addr)
                  (take (unat (program_chunk (page_size_bytes st) addr sz)) buffer)
                  (program_chunk (page_size_bytes st) addr sz)]))"
proof -
  define st1 where "st1 = with_trace st (write_enable_events (device (qspi st)) k (trace (qspi st)))"
  have e1: "set_write_enable st = Some (0, st1)"
    unfolding st1_def using assms(1,2,3) by (rule set_write_enable_to_ready)
  have e2: "qspi_send_program_command (prog_instruction st1) buffer addr
              (program_chunk (page_size_bytes st) addr sz) st1
     = Some (fst (device (qspi st1) (trace (qspi st1))
                (Write (prog_instruction st1) (ucast addr)
                  (take (unat (program_chunk (page_size_bytes st) addr sz)) buffer)
                  (program_chunk (page_size_bytes st) addr sz))),
             snd (snd (device (qspi st1) (trace (qspi st1))
                (Write (prog_instruction st1) (ucast addr)
                  (take (unat (program_chunk (page_size_bytes st) addr sz)) buffer)
                  (program_chunk (page_size_bytes st) addr sz)))),
             with_trace st1 [Write (prog_instruction st1) (ucast addr)
                  (take (unat (program_chunk (page_size_bytes st) addr sz)) buffer)
                  (program_chunk (page_size_bytes st) addr sz)])"
    using assms(3,6) by (intro send_program_reply) (simp_all add: st1_def)
  show ?thesis
    using assms(4,5,7) e1 e2
    by (subst program_loop.simps) (auto simp: word_greater_zero_iff st1_def)
qed


text \<open>
  The poll to ready is what its name says: its last round is the first one that reads
  the flash ready, every round before it reads the write in progress, and it has at
  most \<open>k\<close> rounds.
\<close>

lemma busy_reads_ready:
  assumes "\<exists>n<k. \<not> write_in_progress dev (tr @ polls n)"
  shows "\<not> write_in_progress dev (tr @ polls (busy_reads dev tr k))
    \<and> (\<forall>j<busy_reads dev tr k. write_in_progress dev (tr @ polls j))
    \<and> busy_reads dev tr k < k"
  using assms
proof (induction k arbitrary: tr)
  case 0
  then show ?case by simp
next
  case (Suc k)
  show ?case
  proof (cases "write_in_progress dev tr")
    case True
    from Suc.prems obtain n where n: "n < Suc k" "\<not> write_in_progress dev (tr @ polls n)"
      by blast
    with True obtain m where "n = Suc m" by (cases n) simp_all
    with n have "\<exists>n<k. \<not> write_in_progress dev ((tr @ poll_round) @ polls n)" by auto
    from Suc.IH [OF this] True show ?thesis
      by (auto simp: less_Suc_eq_0_disj)
  next
    case False
    then show ?thesis by simp
  qed
qed

lemma program_commands_append [simp]:
  "program_commands (xs @ ys) = program_commands xs @ program_commands ys"
  "program_commands [] = []"
  "program_commands (Write inst addr data len # xs) = (addr, len) # program_commands xs"
  "program_commands (Command_transfer inst addr tx n # xs) = program_commands xs"
  "program_commands (Sleep_for ms # xs) = program_commands xs"
  by (simp_all add: program_commands_def)

lemma program_commands_polls [simp]: "program_commands (polls n) = []"
  by (induction n) (simp_all add: poll_round_def)

lemma program_events_commands:
  "program_commands (program_events dev k inst buffer base tr cs)
   = map (\<lambda>c. (of_nat (fst c), of_nat (snd c))) cs"
  by (induction cs arbitrary: tr)
    (simp_all add: program_chunk_events_def write_enable_events_def poll_to_ready_def
      del: polls_simps)

lemma settling_flash_ok: "commands_ok settling_flash 2" "writes_ok settling_flash"
proof -
  have "\<not> write_in_progress settling_flash (tr @ polls 1)" for tr
    by (simp add: write_in_progress_def settling_flash_def write_pending_def poll_round_def
        rx_byte_def QSPIF_STATUS_BIT_WIP_def)
  then have "\<exists>n<2. \<not> write_in_progress settling_flash (tr @ polls n)" for tr
    by (intro exI [of _ 1]) simp
  then show "commands_ok settling_flash 2"
    unfolding commands_ok_def
    by (simp add: settling_flash_def rx_byte_def QSPIF_STATUS_BIT_WEL_def)
  show "writes_ok settling_flash"
    by (simp add: writes_ok_def settling_flash_def ideal_flash_def)
qed

lemma short_write_flash_ok: "commands_ok short_write_flash 1"
proof -
  have "\<not> write_in_progress short_write_flash tr" for tr
    by (simp add: write_in_progress_def short_write_flash_def ideal_flash_def
        rx_byte_def QSPIF_STATUS_BIT_WIP_def)
  then show ?thesis
    unfolding commands_ok_def
    by (simp add: short_write_flash_def ideal_flash_def rx_byte_def QSPIF_STATUS_BIT_WEL_def)
qed

lemma settling_events:
  "program_events settling_flash 2 0x02 buffer 496 [] [(496, 16), (512, 16)]
   = Command_transfer QSPIF_WREN 0xFFFFFFFF [] 0 # polls 1
     @ [Command_transfer QSPIF_INST_RSR1 0xFFFFFFFF [] 1, Write 0x02 0x1F0 (take 16 buffer) 16]
     @ polls 2
     @ Command_transfer QSPIF_WREN 0xFFFFFFFF [] 0 # polls 1
     @ [Command_transfer QSPIF_INST_RSR1 0xFFFFFFFF [] 1,
        Write 0x02 0x200 (take 16 (drop 16 buffer)) 16]
     @ polls 2"
  by (simp add: program_chunk_events_def write_enable_events_def poll_to_ready_def
      numeral_2_eq_2 write_in_progress_def settling_flash_def write_pending_def poll_round_def
      rx_byte_def QSPIF_STATUS_BIT_WIP_def)


text \<open>
  With an extended-address-register instruction recorded, no command of the driver
  returns; so whatever returns leaves the driver without one.
\<close>

lemma sleep_for_fields [simp]:
  "fourbyte_msb_reg_write_inst (sleep_for ms st) = fourbyte_msb_reg_write_inst st"
  by (simp add: sleep_for_def)

lemma no_return_with_ext_addr_reg:
  assumes "fourbyte_msb_reg_write_inst st \<noteq> QSPI_NO_INST"
  shows "qspi_send_general_command inst addr tx n st = None"
    and "is_mem_ready st = None"
    and "set_write_enable st = None"
    and "qspi_send_program_command inst buffer addr c st = None"
proof -
  show g: "qspi_send_general_command inst addr tx n st = None" for inst addr tx n
    using assms by (simp add: qspi_send_general_command_def qspi_update_4byte_ext_addr_reg_def)
  show "is_mem_ready st = None"
    using assms
    by (simp add: is_mem_ready_def is_mem_ready_loop.simps [of 0 st]
        qspi_send_general_command_def qspi_update_4byte_ext_addr_reg_def)
  show "set_write_enable st = None"
    by (simp add: set_write_enable_def g)
  show "qspi_send_program_command inst buffer addr c st = None"
    using assms by (simp add: qspi_send_program_command_def qspi_update_4byte_ext_addr_reg_def)
qed

lemma send_general_returns:
  assumes "qspi_send_general_command inst addr tx n st = Some (s, rx, st')"
  shows "fourbyte_msb_reg_write_inst st' = QSPI_NO_INST"
    and "fourbyte_msb_reg_write_inst st = QSPI_NO_INST"
proof -
  show a: "fourbyte_msb_reg_write_inst st = QSPI_NO_INST"
    using assms no_return_with_ext_addr_reg(1) [of st inst addr tx n]
    by (cases "fourbyte_msb_reg_write_inst st = QSPI_NO_INST") simp_all
  have "\<exists>status1. qspi_update_4byte_ext_addr_reg addr st = Some (status1, st)"
    using a by (simp add: qspi_update_4byte_ext_addr_reg_def)
  then obtain status1 where u: "qspi_update_4byte_ext_addr_reg addr st = Some (status1, st)"
    by blast
  show "fourbyte_msb_reg_write_inst st' = QSPI_NO_INST"
  proof (cases "status1 = QSPI_STATUS_OK")
    case True
    with assms u a show ?thesis
      by (simp add: qspi_send_general_command_def transact_def case_prod_beta) auto
  next
    case False
    with assms u a show ?thesis
      by (simp add: qspi_send_general_command_def)
  qed
qed

lemma is_mem_ready_loop_returns:
  "is_mem_ready_loop r st = Some (b, st') \<Longrightarrow> fourbyte_msb_reg_write_inst st' = QSPI_NO_INST"
proof (induction r st arbitrary: b st' rule: is_mem_ready_loop.induct)
  case (1 retries st)
  from "1.prems" obtain status rx st2 where
    g: "qspi_send_general_command QSPIF_INST_RSR1 QSPI_NO_ADDRESS_COMMAND [] 1 (sleep_for 1 st)
        = Some (status, rx, st2)"
    by (subst (asm) is_mem_ready_loop.simps) (auto simp: bind_eq_Some_conv)
  have k: "fourbyte_msb_reg_write_inst st2 = QSPI_NO_INST"
    by (rule send_general_returns(1) [OF g])
  show ?case
  proof (cases "rx_byte 0xFF rx AND QSPIF_STATUS_BIT_WIP \<noteq> 0
            \<and> sint (retries - 1) < IS_MEM_READY_MAX_RETRIES")
    case True
    with "1.prems" g have "is_mem_ready_loop (retries - 1) st2 = Some (b, st')"
      by (subst (asm) is_mem_ready_loop.simps) simp
    from "1.IH" [OF g refl refl True this] show ?thesis .
  next
    case False
    with "1.prems" g have "st' = st2"
      by (subst (asm) is_mem_ready_loop.simps) (simp split: if_splits)
    with k show ?thesis by simp
  qed
qed

lemma is_mem_ready_returns:
  assumes "is_mem_ready st = Some (b, st')"
  shows "fourbyte_msb_reg_write_inst st' = QSPI_NO_INST"
proof -
  from assms obtain v where "is_mem_ready_loop 0 st = Some (v, st')"
    by (auto simp: is_mem_ready_def bind_eq_Some_conv)
  then show ?thesis by (rule is_mem_ready_loop_returns)
qed

lemma set_write_enable_returns:
  assumes "set_write_enable st = Some (w, st')"
  shows "fourbyte_msb_reg_write_inst st' = QSPI_NO_INST"
proof -
  from assms obtain s1 rx1 st1 where
    g1: "qspi_send_general_command QSPIF_WREN QSPI_NO_ADDRESS_COMMAND [] 0 st = Some (s1, rx1, st1)"
    by (auto simp: set_write_enable_def bind_eq_Some_conv)
  note k1 = send_general_returns(1) [OF g1]
  show ?thesis
  proof (cases "s1 = QSPI_STATUS_OK")
    case False
    with assms g1 k1 show ?thesis by (simp add: set_write_enable_def)
  next
    case True
    with assms g1 obtain ready st2 where m: "is_mem_ready st1 = Some (ready, st2)"
      by (auto simp: set_write_enable_def bind_eq_Some_conv)
    note k2 = is_mem_ready_returns [OF m]
    show ?thesis
    proof (cases ready)
      case False
      with assms g1 True m k2 show ?thesis by (simp add: set_write_enable_def)
    next
      case r: True
      with assms g1 True m obtain s3 rx3 st3 where
        g3: "qspi_send_general_command QSPIF_INST_RSR1 QSPI_NO_ADDRESS_COMMAND [] 1 st2
             = Some (s3, rx3, st3)"
        by (auto simp: set_write_enable_def bind_eq_Some_conv)
      from assms g1 True m r g3 have "st' = st3"
        by (simp add: set_write_enable_def split: if_splits)
      with send_general_returns(1) [OF g3] show ?thesis by simp
    qed
  qed
qed

lemma enable_4byte_on_keeps:
  assumes "enable_4byte_on s st = Some (rc, st')"
  shows "fourbyte_msb_reg_write_inst st' = fourbyte_msb_reg_write_inst st"
  using assms by (auto simp: enable_4byte_on_def split: if_splits)

lemma detect_4byte_failure:
  assumes "sfdp_detect_and_enable_4byte_addressing param_table table_size st = Some (status, st1)"
    and "status \<noteq> QSPIF_BD_ERROR_OK"
  shows "fourbyte_msb_reg_write_inst st1 = QSPI_NO_INST"
  using assms
  unfolding sfdp_detect_and_enable_4byte_addressing_def Let_def
  by (auto simp: bind_eq_Some_conv enable_4byte_on_def split: if_splits
      dest: send_general_returns(1) set_write_enable_returns)

lemma ext_addr_reg_not_recorded_on_return:
  assumes "sfdp_parse_basic_param_table_end param_table table_size st = Some (r, st')"
  shows "fourbyte_msb_reg_write_inst st' = QSPI_NO_INST"
proof -
  from assms obtain status st1 where
    d: "sfdp_detect_and_enable_4byte_addressing param_table table_size st = Some (status, st1)"
    by (auto simp: sfdp_parse_basic_param_table_end_def bind_eq_Some_conv)
  show ?thesis
  proof (cases "status = QSPIF_BD_ERROR_OK")
    case True
    with assms d obtain ready where m: "is_mem_ready st1 = Some (ready, st')"
      by (auto simp: sfdp_parse_basic_param_table_end_def bind_eq_Some_conv split: if_splits)
    from is_mem_ready_returns [OF m] show ?thesis .
  next
    case False
    with assms d have "st' = st1"
      by (simp add: sfdp_parse_basic_param_table_end_def)
    with detect_4byte_failure [OF d False] show ?thesis by simp
  qed
qed


lemma program_chunk_example: "program_chunk 256 0x1F0 0x20 = 16"
  by code_simp

lemma always_4byte_table [simp]:
  "arr_of 0 (replicate 63 0 @ [0x40]) QSPIF_BASIC_PARAM_TABLE_4BYTE_ADDR_BYTE = (0x40 :: uint8_t)"
  unfolding QSPIF_BASIC_PARAM_TABLE_4BYTE_ADDR_BYTE_def by code_simp

lemma ext_addr_reg_table [simp]:
  "arr_of 0 (replicate 63 0 @ [0x04]) QSPIF_BASIC_PARAM_TABLE_4BYTE_ADDR_BYTE = (0x04 :: uint8_t)"
  unfolding QSPIF_BASIC_PARAM_TABLE_4BYTE_ADDR_BYTE_def by code_simp

text \<open>
  A basic table whose byte 63 announces 4-byte addresses always, and one that announces
  the extended address register only: on the first the end of the parse returns 0, on
  the second the detection records instruction \<open>0xC5\<close> and the busy poll after it
  does not return.
\<close>

lemma parse_end_examples:
  "sfdp_parse_basic_param_table_end (arr_of 0 (replicate 63 0 @ [0x40])) 64 mixed_erase_part
   = Some (0, with_trace (mixed_erase_part\<lparr>address_size := QSPI_CFG_ADDR_SIZE_32\<rparr>) poll_round)"
  "sfdp_detect_and_enable_4byte_addressing (arr_of 0 (replicate 63 0 @ [0x04])) 64 mixed_erase_part
   = Some (QSPIF_BD_ERROR_OK, mixed_erase_part\<lparr>fourbyte_msb_reg_write_inst := 0xC5,
        address_size := QSPI_CFG_ADDR_SIZE_24\<rparr>)"
  "sfdp_parse_basic_param_table_end (arr_of 0 (replicate 63 0 @ [0x04])) 64 mixed_erase_part
   = None"
proof -
  have i: "\<not> write_in_progress ideal_flash tr" for tr
    by (simp add: write_in_progress_def ideal_flash_def rx_byte_def QSPIF_STATUS_BIT_WIP_def)
  have "is_mem_ready (mixed_erase_part\<lparr>address_size := QSPI_CFG_ADDR_SIZE_32\<rparr>)
      = Some (True, with_trace (mixed_erase_part\<lparr>address_size := QSPI_CFG_ADDR_SIZE_32\<rparr>)
          (poll_to_ready ideal_flash 1 []))"
    using is_mem_ready_to_ready [of "mixed_erase_part\<lparr>address_size := QSPI_CFG_ADDR_SIZE_32\<rparr>" 1] i
    by (simp add: mixed_erase_part_def)
  then show "sfdp_parse_basic_param_table_end (arr_of 0 (replicate 63 0 @ [0x40])) 64 mixed_erase_part
   = Some (0, with_trace (mixed_erase_part\<lparr>address_size := QSPI_CFG_ADDR_SIZE_32\<rparr>) poll_round)"
    by (simp add: sfdp_parse_basic_param_table_end_def sfdp_detect_and_enable_4byte_addressing_def
        QSPIF_BASIC_PARAM_TABLE_4BYTE_ADDR_BYTE_def [symmetric] FOURBYTE_ADDR_ALWAYS_BITMASK_def
        poll_to_ready_def i)
       (simp add: QSPIF_BASIC_PARAM_TABLE_4BYTE_ADDR_BYTE_def)
  show d: "sfdp_detect_and_enable_4byte_addressing (arr_of 0 (replicate 63 0 @ [0x04])) 64 mixed_erase_part
   = Some (QSPIF_BD_ERROR_OK, mixed_erase_part\<lparr>fourbyte_msb_reg_write_inst := 0xC5,
        address_size := QSPI_CFG_ADDR_SIZE_24\<rparr>)"
    by (simp add: sfdp_detect_and_enable_4byte_addressing_def
        FOURBYTE_ADDR_ALWAYS_BITMASK_def FOURBYTE_ADDR_B7_BITMASK_def
        FOURBYTE_ADDR_B7_WREN_BITMASK_def FOURBYTE_ADDR_CONF_REG_BITMASK_def
        FOURBYTE_ADDR_BANK_REG_BITMASK_def FOURBYTE_ADDR_EXT_ADDR_REG_BITMASK_def)
       (simp add: QSPIF_BASIC_PARAM_TABLE_4BYTE_ADDR_BYTE_def)
  show "sfdp_parse_basic_param_table_end (arr_of 0 (replicate 63 0 @ [0x04])) 64 mixed_erase_part
   = None"
    by (simp add: sfdp_parse_basic_param_table_end_def d no_return_with_ext_addr_reg(2)
        QSPI_NO_INST_def)
qed

text \<open>
  C4. Every call of \<^verbatim>\<open>program\<close> finds the driver without an extended-address-register
  instruction: the constructor records none, and the only assignment of one, in the
  detection of 4-byte addressing, is followed in \<^verbatim>\<open>_sfdp_parse_basic_param_table\<close> by a
  busy poll that does not return once one is recorded, so that the parse never returns
  with one recorded (last part of the statement). For such a driver, on a flash that
  accepts the commands and the writes and that may be busy (from every history it reads
  ready within \<open>k\<close> rounds of the busy poll, \<open>k\<close> up to the 2 147 483 649 rounds a
  poll can make), \<open>program(buf, addr, size)\<close> returns ok and its events are, chunk by
  chunk of the page-boundary split (first chunk \<open>min(size, page_size - (addr %
  page_size))\<close>, then full pages, the last possibly a remainder): the write enable
  (command, busy poll to ready, check of the latch), the program command with the
  chunk's bytes at the chunk's address, and the busy poll to ready. The program commands
  among these events are exactly the chunks of the split, in order. When the transport
  reports a written count other than the chunk, the call fails with device-error right
  after that write. With page size 256, on a flash that is busy at the first status read
  after every write, \<open>program(buf, 0x1F0, 0x20)\<close> issues two program commands, 16 bytes
  at \<open>0x1F0\<close> and 16 bytes at \<open>0x200\<close>, each after a write enable and each followed
  by two rounds of the busy poll. The request is one that a buffer can back: the range
  does not wrap on 64 bits, and with 3-byte addresses it ends within 16 MiB.
\<close>

theorem program_page_split:
  "(responsive (device (qspi st)) k \<and> k \<le> 2147483649
      \<and> fourbyte_msb_reg_write_inst st = QSPI_NO_INST \<and> page_size_bytes st \<noteq> 0
      \<and> ((address_size st = QSPI_CFG_ADDR_SIZE_32 \<and> unat addr + unat sz < 2 ^ 64)
           \<or> unat addr + unat sz \<le> 16777216)
    \<longrightarrow> program st buffer addr sz
        = Some (QSPIF_BD_ERROR_OK,
            with_trace st (program_events (device (qspi st)) k (prog_instruction st) buffer
              (unat addr) (trace (qspi st))
              (page_split (unat (page_size_bytes st)) (unat addr) (unat sz))))
      \<and> program_commands (program_events (device (qspi st)) k (prog_instruction st) buffer
              (unat addr) (trace (qspi st))
              (page_split (unat (page_size_bytes st)) (unat addr) (unat sz)))
        = map (\<lambda>c. (of_nat (fst c), of_nat (snd c)))
            (page_split (unat (page_size_bytes st)) (unat addr) (unat sz)))
   \<and> (commands_ok (device (qspi st')) k' \<and> k' \<le> 2147483649
      \<and> fourbyte_msb_reg_write_inst st' = QSPI_NO_INST
      \<and> page_size_bytes st' \<noteq> 0 \<and> sz' \<noteq> 0
      \<and> (address_size st' = QSPI_CFG_ADDR_SIZE_32 \<or> unat addr' < 16777216)
      \<and> snd (snd (device (qspi st')
            (trace (qspi st') @ write_enable_events (device (qspi st')) k' (trace (qspi st')))
            (Write (prog_instruction st') (ucast addr')
               (take (unat (program_chunk (page_size_bytes st') addr' sz')) buffer')
               (program_chunk (page_size_bytes st') addr' sz'))))
         \<noteq> program_chunk (page_size_bytes st') addr' sz'
    \<longrightarrow> program st' buffer' addr' sz'
        = Some (QSPIF_BD_ERROR_DEVICE_ERROR,
            with_trace st' (write_enable_events (device (qspi st')) k' (trace (qspi st'))
              @ [Write (prog_instruction st') (ucast addr')
                  (take (unat (program_chunk (page_size_bytes st') addr' sz')) buffer')
                  (program_chunk (page_size_bytes st') addr' sz')])))
   \<and> program settling_part buffer'' 0x1F0 0x20
       = Some (QSPIF_BD_ERROR_OK,
           with_trace settling_part
             (Command_transfer QSPIF_WREN 0xFFFFFFFF [] 0 # polls 1
              @ [Command_transfer QSPIF_INST_RSR1 0xFFFFFFFF [] 1,
                 Write 0x02 0x1F0 (take 16 buffer'') 16]
              @ polls 2
              @ Command_transfer QSPIF_WREN 0xFFFFFFFF [] 0 # polls 1
              @ [Command_transfer QSPIF_INST_RSR1 0xFFFFFFFF [] 1,
                 Write 0x02 0x200 (take 16 (drop 16 buffer'')) 16]
              @ polls 2))
   \<and> (sfdp_parse_basic_param_table_end param_table table_size st0 = Some (r, st0')
      \<longrightarrow> fourbyte_msb_reg_write_inst st0' = QSPI_NO_INST)"
proof (intro conjI impI)
  assume a: "responsive (device (qspi st)) k \<and> k \<le> 2147483649
      \<and> fourbyte_msb_reg_write_inst st = QSPI_NO_INST \<and> page_size_bytes st \<noteq> 0
      \<and> ((address_size st = QSPI_CFG_ADDR_SIZE_32 \<and> unat addr + unat sz < 2 ^ 64)
           \<or> unat addr + unat sz \<le> 16777216)"
  then have "0 < unat (page_size_bytes st)" by (simp add: unat_gt_0)
  note split = page_chunks_eq_page_split [OF this]
  from a have "program_loop st buffer addr sz
        = Some (QSPIF_BD_ERROR_OK,
            with_trace st (program_events (device (qspi st)) k (prog_instruction st) buffer
              (unat addr) (trace (qspi st))
              (page_chunks (unat (page_size_bytes st)) (unat addr) (unat sz))))"
    by (intro program_loop_responsive) simp_all
  then show "program st buffer addr sz
        = Some (QSPIF_BD_ERROR_OK,
            with_trace st (program_events (device (qspi st)) k (prog_instruction st) buffer
              (unat addr) (trace (qspi st))
              (page_split (unat (page_size_bytes st)) (unat addr) (unat sz))))"
    by (simp add: program_def split)
next
  show "program_commands (program_events (device (qspi st)) k (prog_instruction st) buffer
              (unat addr) (trace (qspi st))
              (page_split (unat (page_size_bytes st)) (unat addr) (unat sz)))
        = map (\<lambda>c. (of_nat (fst c), of_nat (snd c)))
            (page_split (unat (page_size_bytes st)) (unat addr) (unat sz))"
    by (rule program_events_commands)
next
  assume "commands_ok (device (qspi st')) k' \<and> k' \<le> 2147483649
      \<and> fourbyte_msb_reg_write_inst st' = QSPI_NO_INST
      \<and> page_size_bytes st' \<noteq> 0 \<and> sz' \<noteq> 0
      \<and> (address_size st' = QSPI_CFG_ADDR_SIZE_32 \<or> unat addr' < 16777216)
      \<and> snd (snd (device (qspi st')
            (trace (qspi st') @ write_enable_events (device (qspi st')) k' (trace (qspi st')))
            (Write (prog_instruction st') (ucast addr')
               (take (unat (program_chunk (page_size_bytes st') addr' sz')) buffer')
               (program_chunk (page_size_bytes st') addr' sz'))))
         \<noteq> program_chunk (page_size_bytes st') addr' sz'"
  then show "program st' buffer' addr' sz'
        = Some (QSPIF_BD_ERROR_DEVICE_ERROR,
            with_trace st' (write_enable_events (device (qspi st')) k' (trace (qspi st'))
              @ [Write (prog_instruction st') (ucast addr')
                  (take (unat (program_chunk (page_size_bytes st') addr' sz')) buffer')
                  (program_chunk (page_size_bytes st') addr' sz')]))"
    unfolding program_def by (intro program_short_write) simp_all
next
  have r: "responsive (device (qspi settling_part)) 2"
    by (simp add: settling_part_def responsive_def settling_flash_ok)
  have "program_loop settling_part buffer'' 0x1F0 0x20
      = Some (QSPIF_BD_ERROR_OK,
          with_trace settling_part
            (program_events (device (qspi settling_part)) 2 (prog_instruction settling_part)
               buffer'' (unat (0x1F0 :: bd_addr_t)) (trace (qspi settling_part))
              (page_chunks (unat (page_size_bytes settling_part)) (unat (0x1F0 :: bd_addr_t))
                 (unat (0x20 :: bd_size_t)))))"
    by (rule program_loop_responsive [OF r]) (simp_all add: settling_part_def mixed_erase_part_def)
  then show "program settling_part buffer'' 0x1F0 0x20
       = Some (QSPIF_BD_ERROR_OK,
           with_trace settling_part
             (Command_transfer QSPIF_WREN 0xFFFFFFFF [] 0 # polls 1
              @ [Command_transfer QSPIF_INST_RSR1 0xFFFFFFFF [] 1,
                 Write 0x02 0x1F0 (take 16 buffer'') 16]
              @ polls 2
              @ Command_transfer QSPIF_WREN 0xFFFFFFFF [] 0 # polls 1
              @ [Command_transfer QSPIF_INST_RSR1 0xFFFFFFFF [] 1,
                 Write 0x02 0x200 (take 16 (drop 16 buffer'')) 16]
              @ polls 2))"
    by (simp add: program_def page_chunks_eq_page_split page_split_example settling_events
        settling_part_def mixed_erase_part_def del: polls_simps program_events.simps)
next
  assume "sfdp_parse_basic_param_table_end param_table table_size st0 = Some (r, st0')"
  then show "fourbyte_msb_reg_write_inst st0' = QSPI_NO_INST"
    by (rule ext_addr_reg_not_recorded_on_return)
qed

theorem program_page_split_witness:
  "responsive (device (qspi settling_part)) 2 \<and> (2 :: nat) \<le> 2147483649
   \<and> fourbyte_msb_reg_write_inst settling_part = QSPI_NO_INST
   \<and> page_size_bytes settling_part \<noteq> 0
   \<and> unat (0x1F0 :: bd_addr_t) + unat (0x20 :: bd_size_t) \<le> 16777216
   \<and> program settling_part (replicate 32 0xAB) 0x1F0 0x20
       = Some (QSPIF_BD_ERROR_OK,
           with_trace settling_part
             (Command_transfer QSPIF_WREN 0xFFFFFFFF [] 0 # polls 1
              @ [Command_transfer QSPIF_INST_RSR1 0xFFFFFFFF [] 1,
                 Write 0x02 0x1F0 (replicate 16 0xAB) 16]
              @ polls 2
              @ Command_transfer QSPIF_WREN 0xFFFFFFFF [] 0 # polls 1
              @ [Command_transfer QSPIF_INST_RSR1 0xFFFFFFFF [] 1,
                 Write 0x02 0x200 (replicate 16 0xAB) 16]
              @ polls 2))
   \<and> program_commands
         (program_events settling_flash 2 0x02 (replicate 32 0xAB) 496 []
            (page_split 256 496 32))
       = [(0x1F0, 16), (0x200, 16)]
   \<and> commands_ok (device (qspi short_write_part)) 1 \<and> (1 :: nat) \<le> 2147483649
   \<and> fourbyte_msb_reg_write_inst short_write_part = QSPI_NO_INST
   \<and> page_size_bytes short_write_part \<noteq> 0 \<and> (0x20 :: bd_size_t) \<noteq> 0
   \<and> unat (0x1F0 :: bd_addr_t) < 16777216
   \<and> snd (snd (short_write_flash
         (Command_transfer QSPIF_WREN 0xFFFFFFFF [] 0 # polls 1
            @ [Command_transfer QSPIF_INST_RSR1 0xFFFFFFFF [] 1])
         (Write 0x02 0x1F0 (replicate 16 0xAB) 16)))
       \<noteq> 16
   \<and> program short_write_part (replicate 32 0xAB) 0x1F0 0x20
       = Some (QSPIF_BD_ERROR_DEVICE_ERROR,
           with_trace short_write_part
             (Command_transfer QSPIF_WREN 0xFFFFFFFF [] 0 # polls 1
              @ [Command_transfer QSPIF_INST_RSR1 0xFFFFFFFF [] 1,
                 Write 0x02 0x1F0 (replicate 16 0xAB) 16]))
   \<and> sfdp_parse_basic_param_table_end (arr_of 0 (replicate 63 0 @ [0x40])) 64 mixed_erase_part
       = Some (0, with_trace (mixed_erase_part\<lparr>address_size := QSPI_CFG_ADDR_SIZE_32\<rparr>) poll_round)
   \<and> fourbyte_msb_reg_write_inst
         (with_trace (mixed_erase_part\<lparr>address_size := QSPI_CFG_ADDR_SIZE_32\<rparr>) poll_round)
       = QSPI_NO_INST"
proof -
  have r: "responsive (device (qspi settling_part)) 2"
    by (simp add: settling_part_def responsive_def settling_flash_ok)
  have c: "commands_ok (device (qspi short_write_part)) 1"
    using short_write_flash_ok by (simp add: short_write_part_def)
  have f: "fourbyte_msb_reg_write_inst settling_part = QSPI_NO_INST"
    "page_size_bytes settling_part = 256" "prog_instruction settling_part = 0x02"
    "device (qspi settling_part) = settling_flash" "trace (qspi settling_part) = []"
    "address_size settling_part = QSPI_CFG_ADDR_SIZE_24"
    "fourbyte_msb_reg_write_inst short_write_part = QSPI_NO_INST"
    "page_size_bytes short_write_part = 256" "prog_instruction short_write_part = 0x02"
    "device (qspi short_write_part) = short_write_flash" "trace (qspi short_write_part) = []"
    by (simp_all add: mixed_erase_part_def short_write_part_def settling_part_def)
  have we: "write_enable_events short_write_flash (Suc 0) []
      = Command_transfer QSPIF_WREN 0xFFFFFFFF [] 0 # polls 1
            @ [Command_transfer QSPIF_INST_RSR1 0xFFFFFFFF [] 1]"
    by (simp add: write_enable_events_def poll_to_ready_def write_in_progress_def
        short_write_flash_def ideal_flash_def rx_byte_def QSPIF_STATUS_BIT_WIP_def)
  have s: "snd (snd (short_write_flash
         (Command_transfer QSPIF_WREN 0xFFFFFFFF [] 0 # polls 1
            @ [Command_transfer QSPIF_INST_RSR1 0xFFFFFFFF [] 1])
         (Write 0x02 0x1F0 (replicate 16 0xAB) 16)))
       \<noteq> 16"
    by (simp add: short_write_flash_def)
  have cmds: "program_commands
         (program_events settling_flash 2 0x02 (replicate 32 0xAB) 496 []
            (page_split 256 496 32))
       = [(0x1F0, 16), (0x200, 16)]"
    unfolding program_events_commands by (simp add: page_split_example)
  show ?thesis
    using program_page_split [where st = settling_part and k = 2 and addr = "0x1F0"
        and sz = "0x20" and buffer = "replicate 32 0xAB" and st' = short_write_part and k' = 1
        and addr' = "0x1F0" and sz' = "0x20" and buffer' = "replicate 32 0xAB"
        and buffer'' = "replicate 32 0xAB"
        and param_table = "arr_of 0 (replicate 63 0 @ [0x40])" and table_size = 64
        and ?st0.0 = mixed_erase_part and r = 0
        and st0' = "with_trace (mixed_erase_part\<lparr>address_size := QSPI_CFG_ADDR_SIZE_32\<rparr>) poll_round"]
      r c s cmds parse_end_examples(1)
    by (simp add: f we program_chunk_example page_split_example settling_events
        del: polls_simps program_events.simps)
qed

text \<open>
  C5. The claim: a parameter header with kind \<open>0x81\<close> in byte 0 and \<open>0xFF\<close> in byte
  7 is recognised as the sector map. The parse of such a header succeeds and leaves the
  sector map address and size at 0; the header that is recorded as the sector map is
  the one with kind \<open>0x51\<close>, decimal 81.
\<close>

theorem sector_map_kind_0x81_not_recognised:
  "(case sfdp_parse_sfdp_headers no_tables (sfdp_part (sfdp_headers_image 0x81)) of
      (rc, tables, st) \<Rightarrow>
        (rc, basic_table_addr tables, basic_table_size tables,
         sector_map_table_addr tables, sector_map_table_size tables))
   = (0, 0x30, 64, 0, 0)
   \<and> (case sfdp_parse_sfdp_headers no_tables (sfdp_part (sfdp_headers_image 0x51)) of
      (rc, tables, st) \<Rightarrow>
        (rc, basic_table_addr tables, basic_table_size tables,
         sector_map_table_addr tables, sector_map_table_size tables))
   = (0, 0x30, 64, 0x80, 8)"
  by code_simp

text \<open>
  The test of \<^verbatim>\<open>_sfdp_parse_sector_map_table\<close> on the first word: when the read
  succeeds and the region count is within the cap, the parse fails exactly when the low
  two bits of byte 0 are not 3 and byte 1 is 0.
\<close>

lemma sector_map_gate:
  assumes "qspi_send_read_sfdp_command (ucast a) (unat n) st = (QSPI_STATUS_OK, t, st1)"
    and "uint (t 2) + 1 \<le> max_regions"
  shows "(fst (sfdp_parse_sector_map_table max_regions a n st) = -1)
         = (t 0 AND 0x3 \<noteq> 0x03 \<and> t 1 = 0)"
  using assms by (auto simp: sfdp_parse_sector_map_table_def Let_def split: prod.splits)

text \<open>
  C6. The claim: a sector map table is accepted if and only if the low two bits of
  byte 0 are 3 and byte 1 is 0. The driver accepts the table whose first bytes are
  \<open>0x03, 0x01\<close> and the table whose first bytes are \<open>0x00, 0x01\<close>; of the tables
  that violate the condition it rejects only those with byte 1 equal to 0.
\<close>

theorem sector_map_gate_accepts_nonzero_byte1:
  "fst (sfdp_parse_sector_map_table 10 0 8 (sfdp_part (sector_map_image 0x03 0x01))) = 0
   \<and> fst (sfdp_parse_sector_map_table 10 0 8 (sfdp_part (sector_map_image 0x00 0x01))) = 0
   \<and> fst (sfdp_parse_sector_map_table 10 0 8 (sfdp_part (sector_map_image 0x00 0x00))) = -1
   \<and> fst (sfdp_parse_sector_map_table 10 0 8 (sfdp_part (sector_map_image 0x03 0x00))) = 0"
  by code_simp

lemma local_math_power_loop_eq:
  "local_math_power_loop result base exp = result * base ^ unat exp"
proof (induction result base exp rule: local_math_power_loop.induct)
  case (1 result base exp)
  show ?case
  proof (cases "exp = 0")
    case True
    then show ?thesis by (simp add: local_math_power_loop.simps)
  next
    case False
    then have "unat exp = Suc (unat (exp - 1))"
      by (simp add: unat_minus_one unat_gt_0)
    with 1 False show ?thesis
      by (subst local_math_power_loop.simps) (simp add: mult.assoc)
  qed
qed

lemma local_math_power_two: "local_math_power 2 exp = 2 ^ unat exp"
  by (simp add: local_math_power_def local_math_power_loop_eq)

lemma unat_two_power:
  assumes "n < 32"
  shows "unat (2 ^ n :: 32 word) = 2 ^ n"
proof -
  have "(2 ^ n :: nat) < 2 ^ 32" using assms by (intro power_strict_increasing) simp_all
  moreover have "(2 ^ n :: 32 word) = of_nat (2 ^ n)" by simp
  ultimately show ?thesis by (simp only: unat_of_nat) (simp add: take_bit_eq_mod)
qed

lemma two_power_gt_1: "(1 < (2 ^ n :: 32 word)) = (1 \<le> n \<and> n \<le> 31)"
proof (cases "n < 32")
  case True
  have "(1 < (2 ^ n :: nat)) = (1 \<le> n)"
    using one_less_power [of "2 :: nat" n] by (cases "n = 0") simp_all
  with True show ?thesis
    by (simp add: word_less_nat_alt unat_two_power)
next
  case False
  then have z: "(2 ^ n :: 32 word) = 0" unfolding exp_eq_zero_iff by simp
  show ?thesis unfolding z using False by simp
qed

lemma unat_ucast_byte: "unat (ucast (b :: uint8_t) :: int32_t) = unat b"
proof -
  have "unat b < 2 ^ 8" using unsigned_less [of b, where 'a = nat] by simp
  then have "unat b < 2 ^ 32" by simp
  then show ?thesis by (simp add: unsigned_ucast_eq take_bit_eq_mod)
qed

lemma slot_fields:
  "erase_type_size_arr (detect_erase_type_slot t j bf s)
     = (erase_type_size_arr s)(j := erase_slot_size t j)"
  "erase_type_inst_arr (detect_erase_type_slot t j bf s)
     = (erase_type_inst_arr s)(j := if 1 < erase_slot_size t j then uint (t (29 + 2 * j)) else 0xff)"
  "region_erase_types_bitfield (detect_erase_type_slot t j bf s) 0
     = mark_slot (erase_slot_size t j) bf (region_erase_types_bitfield s 0)"
  "min_common_erase_size (detect_erase_type_slot t j bf s)
     = min_common_step (erase_slot_size t j) (min_common_erase_size s)"
  by (simp_all add: detect_erase_type_slot_def Let_def erase_slot_size_def local_math_power_two
      unat_ucast_byte min_common_step_def mark_slot_def)

lemma detect_loop_unrolled:
  "sfdp_detect_erase_types_loop t 0 1 s
   = detect_erase_type_slot t 3 8 (detect_erase_type_slot t 2 4
       (detect_erase_type_slot t 1 2 (detect_erase_type_slot t 0 1 s)))"
  by (simp add: sfdp_detect_erase_types_loop.simps)

lemma min_common_step_here:
  "1 < p \<Longrightarrow> min_common_step p m \<noteq> 0 \<and> min_common_step p m \<le> p"
  by (auto simp: min_common_step_def)

lemma min_common_step_later:
  "m \<noteq> 0 \<Longrightarrow> min_common_step p m \<noteq> 0 \<and> min_common_step p m \<le> m"
  by (auto simp: min_common_step_def)

lemma min_common_chain:
  assumes "m \<noteq> 0 \<and> m \<le> (p :: uint32_t)"
  shows "min_common_step q m \<noteq> 0 \<and> min_common_step q m \<le> p"
  using assms min_common_step_later [of m q] by auto

lemma detected_closed:
  assumes "28 < n"
  shows "erase_type_size_arr (sfdp_detect_erase_types_inst_and_size t n st)
         = (erase_type_size_arr st)(0 := erase_slot_size t 0, 1 := erase_slot_size t 1,
              2 := erase_slot_size t 2, 3 := erase_slot_size t 3)"
    and "erase_type_inst_arr (sfdp_detect_erase_types_inst_and_size t n st)
         = (erase_type_inst_arr st)
             (0 := if 1 < erase_slot_size t 0 then uint (t 29) else 0xff,
              1 := if 1 < erase_slot_size t 1 then uint (t 31) else 0xff,
              2 := if 1 < erase_slot_size t 2 then uint (t 33) else 0xff,
              3 := if 1 < erase_slot_size t 3 then uint (t 35) else 0xff)"
    and "region_erase_types_bitfield (sfdp_detect_erase_types_inst_and_size t n st) 0
         = mark_slot (erase_slot_size t 3) 8 (mark_slot (erase_slot_size t 2) 4
             (mark_slot (erase_slot_size t 1) 2 (mark_slot (erase_slot_size t 0) 1
               (region_erase_types_bitfield st 0))))"
    and "min_common_erase_size (sfdp_detect_erase_types_inst_and_size t n st)
         = min_common_step (erase_slot_size t 3) (min_common_step (erase_slot_size t 2)
             (min_common_step (erase_slot_size t 1) (min_common_step (erase_slot_size t 0)
               (min_common_erase_size st))))"
  using assms
  by (simp_all add: sfdp_detect_erase_types_inst_and_size_def detect_loop_unrolled slot_fields)

lemma detected_min_common:
  assumes "28 < n" and "i \<in> {0, 1, 2, 3}" and "1 < erase_slot_size t i"
  shows "min_common_erase_size (sfdp_detect_erase_types_inst_and_size t n st) \<noteq> 0
       \<and> min_common_erase_size (sfdp_detect_erase_types_inst_and_size t n st) \<le> erase_slot_size t i"
proof -
  from assms(2) consider "i = 0" | "i = 1" | "i = 2" | "i = 3" by auto
  then show ?thesis
  proof cases
    case 1
    with assms(3) have "1 < erase_slot_size t 0" by simp
    from min_common_chain [OF min_common_chain [OF min_common_chain
          [OF min_common_step_here [OF this]]]]
    show ?thesis unfolding detected_closed(4) [OF assms(1)] 1 .
  next
    case 2
    with assms(3) have "1 < erase_slot_size t 1" by simp
    from min_common_chain [OF min_common_chain [OF min_common_step_here [OF this]]]
    show ?thesis unfolding detected_closed(4) [OF assms(1)] 2 .
  next
    case 3
    with assms(3) have "1 < erase_slot_size t 2" by simp
    from min_common_chain [OF min_common_step_here [OF this]]
    show ?thesis unfolding detected_closed(4) [OF assms(1)] 3 .
  next
    case 4
    with assms(3) have "1 < erase_slot_size t 3" by simp
    from min_common_step_here [OF this]
    show ?thesis unfolding detected_closed(4) [OF assms(1)] 4 .
  qed
qed

lemma detected_fields:
  assumes "28 < n" and "i \<in> {0, 1, 2, 3}"
  shows "erase_type_size_arr (sfdp_detect_erase_types_inst_and_size t n st) i = erase_slot_size t i"
    and "erase_type_inst_arr (sfdp_detect_erase_types_inst_and_size t n st) i
         = (if 1 < erase_slot_size t i then uint (t (29 + 2 * i)) else 0xff)"
  using assms
  by (auto simp: sfdp_detect_erase_types_inst_and_size_def detect_loop_unrolled slot_fields)

lemma detected_bit:
  assumes "28 < n" and "i \<in> {0, 1, 2, 3}" and "region_erase_types_bitfield st 0 = 0"
  shows "(region_erase_types_bitfield (sfdp_detect_erase_types_inst_and_size t n st) 0
            AND push_bit (nat i) 1 \<noteq> 0)
         = (1 < erase_slot_size t i)"
proof -
  from assms(2) consider "i = 0" | "i = 1" | "i = 2" | "i = 3" by auto
  then show ?thesis
    by cases (simp_all add: detected_closed(3) [OF assms(1)] assms(3) mark_slot_def)
qed

text \<open>
  C7, as the claim states it: a slot of size 2 (exponent 1) would be left unsupported.
  With exponent 1 and instruction \<open>0x20\<close> in the first slot, the driver records the
  instruction, sets bit 0 of the bitfield of region 0, and takes 2 as the minimum common
  erase size.
\<close>

theorem erase_type_of_size_two_is_supported:
  "erase_type_size_arr
     (sfdp_detect_erase_types_inst_and_size
        (basic_table_with_erase_types [0x01, 0x20, 0x00, 0xFF, 0x00, 0xFF, 0x00, 0xFF]) 64
        undiscovered_part) 0 = 2
   \<and> erase_type_inst_arr
     (sfdp_detect_erase_types_inst_and_size
        (basic_table_with_erase_types [0x01, 0x20, 0x00, 0xFF, 0x00, 0xFF, 0x00, 0xFF]) 64
        undiscovered_part) 0 = 0x20
   \<and> region_erase_types_bitfield
     (sfdp_detect_erase_types_inst_and_size
        (basic_table_with_erase_types [0x01, 0x20, 0x00, 0xFF, 0x00, 0xFF, 0x00, 0xFF]) 64
        undiscovered_part) 0 = 0x01
   \<and> min_common_erase_size
     (sfdp_detect_erase_types_inst_and_size
        (basic_table_with_erase_types [0x01, 0x20, 0x00, 0xFF, 0x00, 0xFF, 0x00, 0xFF]) 64
        undiscovered_part) = 2"
  by code_simp

lemma detected_min_common_origin:
  assumes "28 < n"
  shows "min_common_erase_size (sfdp_detect_erase_types_inst_and_size t n st)
           = min_common_erase_size st
         \<or> (\<exists>j\<in>{0, 1, 2, 3}. 1 < erase_slot_size t j
               \<and> min_common_erase_size (sfdp_detect_erase_types_inst_and_size t n st)
                   = erase_slot_size t j)"
proof -
  have step: "min_common_step p m = m \<or> (1 < p \<and> min_common_step p m = p)" for p m
    by (simp add: min_common_step_def)
  show ?thesis
    unfolding detected_closed(4) [OF assms]
    using step [of "erase_slot_size t 0" "min_common_erase_size st"]
      step [of "erase_slot_size t 1" "min_common_step (erase_slot_size t 0) (min_common_erase_size st)"]
      step [of "erase_slot_size t 2" "min_common_step (erase_slot_size t 1)
              (min_common_step (erase_slot_size t 0) (min_common_erase_size st))"]
      step [of "erase_slot_size t 3" "min_common_step (erase_slot_size t 2)
              (min_common_step (erase_slot_size t 1)
              (min_common_step (erase_slot_size t 0) (min_common_erase_size st)))"]
    by auto
qed

text \<open>
  C7, amended. When the four erase-type slots of the basic table are decoded (table
  longer than 28 bytes; the bitfield of region 0 cleared before, as \<^verbatim>\<open>init\<close> does), the
  size of a slot is 2 to the power of its exponent byte on 32 bits, and the slot is
  marked supported, that is its instruction is recorded (\<open>0xFF\<close> otherwise), its bit
  is added to the bitfield of region 0, and its size bounds the minimum common erase
  size, if and only if its size is greater than 1, that is its exponent is between 1
  and 31. The minimum common erase size is left as it was or is the size of a
  supported slot.
\<close>

theorem erase_type_slot_validity:
  "28 < n \<and> i \<in> {0, 1, 2, 3} \<and> region_erase_types_bitfield st 0 = 0 \<longrightarrow>
     erase_type_size_arr (sfdp_detect_erase_types_inst_and_size t n st) i
       = 2 ^ unat (t (28 + 2 * i))
     \<and> (1 < erase_type_size_arr (sfdp_detect_erase_types_inst_and_size t n st) i)
       = (1 \<le> unat (t (28 + 2 * i)) \<and> unat (t (28 + 2 * i)) \<le> 31)
     \<and> erase_type_inst_arr (sfdp_detect_erase_types_inst_and_size t n st) i
       = (if 1 < erase_type_size_arr (sfdp_detect_erase_types_inst_and_size t n st) i
          then uint (t (29 + 2 * i)) else 0xff)
     \<and> (region_erase_types_bitfield (sfdp_detect_erase_types_inst_and_size t n st) 0
            AND push_bit (nat i) 1 \<noteq> 0)
       = (1 < erase_type_size_arr (sfdp_detect_erase_types_inst_and_size t n st) i)
     \<and> (1 < erase_type_size_arr (sfdp_detect_erase_types_inst_and_size t n st) i
          \<longrightarrow> min_common_erase_size (sfdp_detect_erase_types_inst_and_size t n st) \<noteq> 0
              \<and> min_common_erase_size (sfdp_detect_erase_types_inst_and_size t n st)
                  \<le> erase_type_size_arr (sfdp_detect_erase_types_inst_and_size t n st) i)
     \<and> (min_common_erase_size (sfdp_detect_erase_types_inst_and_size t n st)
           = min_common_erase_size st
         \<or> (\<exists>j\<in>{0, 1, 2, 3}.
               1 < erase_type_size_arr (sfdp_detect_erase_types_inst_and_size t n st) j
               \<and> min_common_erase_size (sfdp_detect_erase_types_inst_and_size t n st)
                   = erase_type_size_arr (sfdp_detect_erase_types_inst_and_size t n st) j))"
proof (intro impI)
  assume a: "28 < n \<and> i \<in> {0, 1, 2, 3} \<and> region_erase_types_bitfield st 0 = 0"
  then have n: "28 < n" and i: "i \<in> {0, 1, 2, 3}" and z: "region_erase_types_bitfield st 0 = 0"
    by simp_all
  have sz: "erase_type_size_arr (sfdp_detect_erase_types_inst_and_size t n st) j
      = erase_slot_size t j" if "j \<in> {0, 1, 2, 3}" for j
    using that by (rule detected_fields(1) [OF n])
  show "erase_type_size_arr (sfdp_detect_erase_types_inst_and_size t n st) i
       = 2 ^ unat (t (28 + 2 * i))
     \<and> (1 < erase_type_size_arr (sfdp_detect_erase_types_inst_and_size t n st) i)
       = (1 \<le> unat (t (28 + 2 * i)) \<and> unat (t (28 + 2 * i)) \<le> 31)
     \<and> erase_type_inst_arr (sfdp_detect_erase_types_inst_and_size t n st) i
       = (if 1 < erase_type_size_arr (sfdp_detect_erase_types_inst_and_size t n st) i
          then uint (t (29 + 2 * i)) else 0xff)
     \<and> (region_erase_types_bitfield (sfdp_detect_erase_types_inst_and_size t n st) 0
            AND push_bit (nat i) 1 \<noteq> 0)
       = (1 < erase_type_size_arr (sfdp_detect_erase_types_inst_and_size t n st) i)
     \<and> (1 < erase_type_size_arr (sfdp_detect_erase_types_inst_and_size t n st) i
          \<longrightarrow> min_common_erase_size (sfdp_detect_erase_types_inst_and_size t n st) \<noteq> 0
              \<and> min_common_erase_size (sfdp_detect_erase_types_inst_and_size t n st)
                  \<le> erase_type_size_arr (sfdp_detect_erase_types_inst_and_size t n st) i)
     \<and> (min_common_erase_size (sfdp_detect_erase_types_inst_and_size t n st)
           = min_common_erase_size st
         \<or> (\<exists>j\<in>{0, 1, 2, 3}.
               1 < erase_type_size_arr (sfdp_detect_erase_types_inst_and_size t n st) j
               \<and> min_common_erase_size (sfdp_detect_erase_types_inst_and_size t n st)
                   = erase_type_size_arr (sfdp_detect_erase_types_inst_and_size t n st) j))"
  proof (intro conjI impI)
    show "erase_type_size_arr (sfdp_detect_erase_types_inst_and_size t n st) i
       = 2 ^ unat (t (28 + 2 * i))"
      by (simp add: sz [OF i] erase_slot_size_def)
    show "(1 < erase_type_size_arr (sfdp_detect_erase_types_inst_and_size t n st) i)
       = (1 \<le> unat (t (28 + 2 * i)) \<and> unat (t (28 + 2 * i)) \<le> 31)"
      unfolding sz [OF i] erase_slot_size_def by (rule two_power_gt_1)
    show "erase_type_inst_arr (sfdp_detect_erase_types_inst_and_size t n st) i
       = (if 1 < erase_type_size_arr (sfdp_detect_erase_types_inst_and_size t n st) i
          then uint (t (29 + 2 * i)) else 0xff)"
      unfolding sz [OF i] by (rule detected_fields(2) [OF n i])
    show "(region_erase_types_bitfield (sfdp_detect_erase_types_inst_and_size t n st) 0
            AND push_bit (nat i) 1 \<noteq> 0)
       = (1 < erase_type_size_arr (sfdp_detect_erase_types_inst_and_size t n st) i)"
      unfolding sz [OF i] by (rule detected_bit [OF n i z])
    show "min_common_erase_size (sfdp_detect_erase_types_inst_and_size t n st) \<noteq> 0"
      "min_common_erase_size (sfdp_detect_erase_types_inst_and_size t n st)
          \<le> erase_type_size_arr (sfdp_detect_erase_types_inst_and_size t n st) i"
      if "1 < erase_type_size_arr (sfdp_detect_erase_types_inst_and_size t n st) i"
      using detected_min_common [OF n i, of t st] that by (simp_all add: sz [OF i])
    show "min_common_erase_size (sfdp_detect_erase_types_inst_and_size t n st)
           = min_common_erase_size st
         \<or> (\<exists>j\<in>{0, 1, 2, 3}.
               1 < erase_type_size_arr (sfdp_detect_erase_types_inst_and_size t n st) j
               \<and> min_common_erase_size (sfdp_detect_erase_types_inst_and_size t n st)
                   = erase_type_size_arr (sfdp_detect_erase_types_inst_and_size t n st) j)"
      using detected_min_common_origin [OF n, of t st] by (auto simp: sz)
  qed
qed

text \<open>The first slot of the table above, with exponent 1: size 2, supported.\<close>

theorem erase_type_slot_validity_witness:
  "(28 :: int) < 64 \<and> (0 :: int) \<in> {0, 1, 2, 3}
   \<and> region_erase_types_bitfield undiscovered_part 0 = 0
   \<and> erase_type_size_arr
         (sfdp_detect_erase_types_inst_and_size
            (basic_table_with_erase_types [0x01, 0x20, 0x00, 0xFF, 0x00, 0xFF, 0x00, 0xFF]) 64
            undiscovered_part) 0 = 2
   \<and> erase_type_inst_arr
         (sfdp_detect_erase_types_inst_and_size
            (basic_table_with_erase_types [0x01, 0x20, 0x00, 0xFF, 0x00, 0xFF, 0x00, 0xFF]) 64
            undiscovered_part) 0 = 0x20
   \<and> region_erase_types_bitfield
         (sfdp_detect_erase_types_inst_and_size
            (basic_table_with_erase_types [0x01, 0x20, 0x00, 0xFF, 0x00, 0xFF, 0x00, 0xFF]) 64
            undiscovered_part) 0 AND 1 \<noteq> 0
   \<and> min_common_erase_size
         (sfdp_detect_erase_types_inst_and_size
            (basic_table_with_erase_types [0x01, 0x20, 0x00, 0xFF, 0x00, 0xFF, 0x00, 0xFF]) 64
            undiscovered_part) \<noteq> 0"
proof -
  have t: "basic_table_with_erase_types [0x01, 0x20, 0x00, 0xFF, 0x00, 0xFF, 0x00, 0xFF] 28 = 0x01"
    "basic_table_with_erase_types [0x01, 0x20, 0x00, 0xFF, 0x00, 0xFF, 0x00, 0xFF] 29 = 0x20"
    by code_simp+
  have z: "region_erase_types_bitfield undiscovered_part 0 = 0"
    by (simp add: undiscovered_part_def arr_of_def)
  show ?thesis
    using erase_type_slot_validity [of 64 0 undiscovered_part
        "basic_table_with_erase_types [0x01, 0x20, 0x00, 0xFF, 0x00, 0xFF, 0x00, 0xFF]"]
    by (simp add: t z)
qed

subsection \<open>General shape of the region lookup and of the erase command\<close>

text \<open>The region lookup scans the boundaries from index \<open>i\<close> downwards. It answers
  \<open>-1\<close> exactly when no boundary at an index in \<open>0..i\<close> lies strictly below the offset,
  and otherwise one more than the highest such index; it never answers \<open>0\<close>.\<close>

lemma find_addr_region_loop_result:
  "utils_find_addr_region_loop st offset i = r \<Longrightarrow>
     (r = -1 \<and> (\<forall>j. 0 \<le> j \<and> j \<le> i \<longrightarrow> offset \<le> region_high_boundary st j))
     \<or> (1 \<le> r \<and> r \<le> i + 1 \<and> offset > region_high_boundary st (r - 1)
         \<and> (\<forall>j. r \<le> j \<and> j \<le> i \<longrightarrow> offset \<le> region_high_boundary st j))"
proof (induction st offset i arbitrary: r rule: utils_find_addr_region_loop.induct)
  case (1 st offset i_ind)
  show ?case
  proof (cases "i_ind \<ge> 0")
    case False
    with 1(2) show ?thesis by (auto simp: utils_find_addr_region_loop.simps [of st offset i_ind])
  next
    case True
    show ?thesis
    proof (cases "offset > region_high_boundary st i_ind")
      case above: True
      with True 1(2) have "r = i_ind + 1"
        by (simp add: utils_find_addr_region_loop.simps [of st offset i_ind])
      with True above show ?thesis by auto
    next
      case below: False
      with True 1(2) have "utils_find_addr_region_loop st offset (i_ind - 1) = r"
        by (simp add: utils_find_addr_region_loop.simps [of st offset i_ind])
      from 1(1) [OF True below this]
      have ih: "(r = -1 \<and> (\<forall>j. 0 \<le> j \<and> j \<le> i_ind - 1 \<longrightarrow> offset \<le> region_high_boundary st j))
         \<or> (1 \<le> r \<and> r \<le> i_ind - 1 + 1 \<and> offset > region_high_boundary st (r - 1)
            \<and> (\<forall>j. r \<le> j \<and> j \<le> i_ind - 1 \<longrightarrow> offset \<le> region_high_boundary st j))" .
      have ext: "\<forall>j. lo \<le> j \<and> j \<le> i_ind \<longrightarrow> offset \<le> region_high_boundary st j"
        if "\<forall>j. lo \<le> j \<and> j \<le> i_ind - 1 \<longrightarrow> offset \<le> region_high_boundary st j" for lo
      proof (intro allI impI)
        fix j assume j: "lo \<le> j \<and> j \<le> i_ind"
        show "offset \<le> region_high_boundary st j"
        proof (cases "j = i_ind")
          case True
          with below show ?thesis by simp
        next
          case False
          with j have "lo \<le> j \<and> j \<le> i_ind - 1" by simp
          with that show ?thesis by blast
        qed
      qed
      from ih show ?thesis
      proof
        assume "r = -1 \<and> (\<forall>j. 0 \<le> j \<and> j \<le> i_ind - 1 \<longrightarrow> offset \<le> region_high_boundary st j)"
        then show ?thesis using ext [of 0] by blast
      next
        assume "1 \<le> r \<and> r \<le> i_ind - 1 + 1 \<and> offset > region_high_boundary st (r - 1)
            \<and> (\<forall>j. r \<le> j \<and> j \<le> i_ind - 1 \<longrightarrow> offset \<le> region_high_boundary st j)"
        then have "1 \<le> r \<and> r \<le> i_ind + 1 \<and> offset > region_high_boundary st (r - 1)
            \<and> (\<forall>j. r \<le> j \<and> j \<le> i_ind \<longrightarrow> offset \<le> region_high_boundary st j)"
          using ext [of r] by simp
        then show ?thesis by blast
      qed
    qed
  qed
qed

text \<open>Whatever the address, the erase command puts only bits 12 to 23 of it on the bus,
  provided the part does not use the extended address register.\<close>

lemma send_erase_command_address:
  assumes "fourbyte_msb_reg_write_inst st = QSPI_NO_INST"
    and "address_size st = QSPI_CFG_ADDR_SIZE_32 \<or> unat addr < 16777216"
  shows "map_option (\<lambda>(status, st'). trace (qspi st')) (qspi_send_erase_command inst addr sz st)
         = Some (trace (qspi st) @ [Command_transfer inst (ucast addr AND 0x00FFF000) [] 0])"
proof -
  have "\<not> (address_size st \<noteq> QSPI_CFG_ADDR_SIZE_32 \<and> addr \<noteq> QSPI_NO_ADDRESS_COMMAND
            \<and> addr \<ge> push_bit 24 1)"
    using assms(2) by (auto simp: word_le_nat_alt)
  then show ?thesis
    using assms(1)
    by (auto simp: qspi_send_erase_command_def qspi_update_4byte_ext_addr_reg_def
      transact_def case_prod_beta)
qed

end
